theory Spec2Isabelle
  imports Complex_Main
begin

section \<open>JavaScript strings\<close>

text \<open>
  The chat visual of \<^verbatim>\<open>src/visual.ts\<close> is embedded function by function. A string is a
  \<^typ>\<open>string\<close> holding the UTF-8 bytes of the text, so the source's literals outside ASCII
  are written as byte lists and concatenation, prefix and substring tests are those of the
  text (UTF-8 is self-synchronising on well-formed text).
\<close>

fun startsWith :: "string \<Rightarrow> string \<Rightarrow> bool" where
  "startsWith s [] = True"
| "startsWith [] (c # t) = False"
| "startsWith (a # s) (c # t) = (a = c \<and> startsWith s t)"

text \<open>\<^verbatim>\<open>s.includes(t)\<close>: \<open>t\<close> occurs in \<open>s\<close>.\<close>

fun js_includes :: "string \<Rightarrow> string \<Rightarrow> bool" where
  "js_includes [] t = (t = [])"
| "js_includes (a # s) t = (startsWith (a # s) t \<or> js_includes s t)"

text \<open>\<^verbatim>\<open>s.split(c)\<close> for a separator of one character: never the empty list.\<close>

fun split_on :: "char \<Rightarrow> string \<Rightarrow> string list" where
  "split_on c [] = [[]]"
| "split_on c (x # xs) =
     (if x = c then [] # split_on c xs
      else (case split_on c xs of [] \<Rightarrow> [[x]] | w # ws \<Rightarrow> (x # w) # ws))"

definition newline :: char where
  "newline = CHR 0x0A"

text \<open>
  The characters \<^verbatim>\<open>trim()\<close> removes, each as its UTF-8 encoding: TAB, LF, VT, FF, CR,
  SPACE, U+00A0, U+1680, U+2000 to U+200A, U+2028, U+2029, U+202F, U+205F, U+3000, U+FEFF.
\<close>

definition js_whitespace :: "string list" where
  "js_whitespace =
     [[CHR 0x09], [CHR 0x0A], [CHR 0x0B], [CHR 0x0C], [CHR 0x0D], [CHR 0x20],
      [CHR 0xC2, CHR 0xA0], [CHR 0xE1, CHR 0x9A, CHR 0x80],
      [CHR 0xE2, CHR 0x80, CHR 0x80], [CHR 0xE2, CHR 0x80, CHR 0x81],
      [CHR 0xE2, CHR 0x80, CHR 0x82], [CHR 0xE2, CHR 0x80, CHR 0x83],
      [CHR 0xE2, CHR 0x80, CHR 0x84], [CHR 0xE2, CHR 0x80, CHR 0x85],
      [CHR 0xE2, CHR 0x80, CHR 0x86], [CHR 0xE2, CHR 0x80, CHR 0x87],
      [CHR 0xE2, CHR 0x80, CHR 0x88], [CHR 0xE2, CHR 0x80, CHR 0x89],
      [CHR 0xE2, CHR 0x80, CHR 0x8A], [CHR 0xE2, CHR 0x80, CHR 0xA8],
      [CHR 0xE2, CHR 0x80, CHR 0xA9], [CHR 0xE2, CHR 0x80, CHR 0xAF],
      [CHR 0xE2, CHR 0x81, CHR 0x9F], [CHR 0xE3, CHR 0x80, CHR 0x80],
      [CHR 0xEF, CHR 0xBB, CHR 0xBF]]"

text \<open>The number of bytes of the whitespace character \<open>s\<close> starts with, 0 when it starts with none.\<close>

definition ws_width :: "string \<Rightarrow> nat" where
  "ws_width s = (case filter (startsWith s) js_whitespace of [] \<Rightarrow> 0 | w # _ \<Rightarrow> length w)"

text \<open>\<^verbatim>\<open>s.trim() === ""\<close>: the string is whitespace only.\<close>

function blank :: "string \<Rightarrow> bool" where
  "blank s =
     (if s = [] then True
      else if ws_width s = 0 then False
      else blank (drop (ws_width s) s))"
  by pat_completeness auto
termination
  by (relation "measure length") auto

declare blank.simps [simp del]

text \<open>Decimal digits of a natural number, as \<^verbatim>\<open>String(n)\<close> prints an integer below \<open>10^21\<close>.\<close>

fun decimal :: "nat \<Rightarrow> string" where
  "decimal n =
     (if n < 10 then [''0123456789'' ! n]
      else decimal (n div 10) @ [''0123456789'' ! (n mod 10)])"

declare decimal.simps [simp del]

text \<open>\<^verbatim>\<open>xs.join(sep)\<close>.\<close>

fun join :: "string \<Rightarrow> string list \<Rightarrow> string" where
  "join sep [] = []"
| "join sep [x] = x"
| "join sep (x # y # ys) = x @ sep @ join sep (y # ys)"

section \<open>The text literals of the source\<close>

text \<open>The literal of handleStreamResponse, line 115, as UTF-8 bytes; in English: "the stream response cannot be read".\<close>

definition msg_no_reader :: string where
  "msg_no_reader =
     [CHR 0xE6, CHR 0x97, CHR 0xA0, CHR 0xE6, CHR 0xB3, CHR 0x95, CHR 0xE8, CHR 0xAF,
     CHR 0xBB, CHR 0xE5, CHR 0x8F, CHR 0x96, CHR 0xE6, CHR 0xB5, CHR 0x81, CHR 0xE5,
     CHR 0xBC, CHR 0x8F, CHR 0xE5, CHR 0x93, CHR 0x8D, CHR 0xE5, CHR 0xBA, CHR 0x94]"

text \<open>The literal of handleStreamResponse, line 196, as UTF-8 bytes; in English: "an empty response was received".\<close>

definition msg_empty_stream :: string where
  "msg_empty_stream =
     [CHR 0xE6, CHR 0x94, CHR 0xB6, CHR 0xE5, CHR 0x88, CHR 0xB0, CHR 0xE7, CHR 0xA9,
     CHR 0xBA, CHR 0xE5, CHR 0x93, CHR 0x8D, CHR 0xE5, CHR 0xBA, CHR 0x94]"

text \<open>The literal of callApiWithRetry, line 282, as UTF-8 bytes; in English: "retrying the connection... (".\<close>

definition msg_retrying :: string where
  "msg_retrying =
     [CHR 0xE6, CHR 0xAD, CHR 0xA3, CHR 0xE5, CHR 0x9C, CHR 0xA8, CHR 0xE9, CHR 0x87,
     CHR 0x8D, CHR 0xE8, CHR 0xAF, CHR 0x95, CHR 0xE8, CHR 0xBF, CHR 0x9E, CHR 0xE6,
     CHR 0x8E, CHR 0xA5] @ ''... (''"

text \<open>The literal of callApiWithRetry, line 292, as UTF-8 bytes; in English: "connection failed,".\<close>

definition msg_connect_failed :: string where
  "msg_connect_failed =
     [CHR 0xE8, CHR 0xBF, CHR 0x9E, CHR 0xE6, CHR 0x8E, CHR 0xA5, CHR 0xE5, CHR 0xA4,
     CHR 0xB1, CHR 0xE8, CHR 0xB4, CHR 0xA5, CHR 0xEF, CHR 0xBC, CHR 0x8C]"

text \<open>The literal of callApiWithRetry, line 292, as UTF-8 bytes; in English: "seconds until the retry...".\<close>

definition msg_retry_after :: string where
  "msg_retry_after =
     [CHR 0xE7, CHR 0xA7, CHR 0x92, CHR 0xE5, CHR 0x90, CHR 0x8E, CHR 0xE9, CHR 0x87,
     CHR 0x8D, CHR 0xE8, CHR 0xAF, CHR 0x95] @ ''...''"

text \<open>The literal of callApiWithRetry, line 289, as UTF-8 bytes; in English: "network connection failed".\<close>

definition tag_network_failed :: string where
  "tag_network_failed =
     [CHR 0xE7, CHR 0xBD, CHR 0x91, CHR 0xE7, CHR 0xBB, CHR 0x9C, CHR 0xE8, CHR 0xBF,
     CHR 0x9E, CHR 0xE6, CHR 0x8E, CHR 0xA5, CHR 0xE5, CHR 0xA4, CHR 0xB1, CHR 0xE8,
     CHR 0xB4, CHR 0xA5]"

text \<open>The literal of callApi, line 310, as UTF-8 bytes; in English: "configure the API URL first".\<close>

definition msg_no_url :: string where
  "msg_no_url =
     [CHR 0xE8, CHR 0xAF, CHR 0xB7, CHR 0xE5, CHR 0x85, CHR 0x88, CHR 0xE9, CHR 0x85,
     CHR 0x8D, CHR 0xE7, CHR 0xBD, CHR 0xAE] @ ''API URL''"

text \<open>The literal of callApi, line 351, as UTF-8 bytes; in English: "unknown error".\<close>

definition msg_unknown_error :: string where
  "msg_unknown_error =
     [CHR 0xE6, CHR 0x9C, CHR 0xAA, CHR 0xE7, CHR 0x9F, CHR 0xA5, CHR 0xE9, CHR 0x94,
     CHR 0x99, CHR 0xE8, CHR 0xAF, CHR 0xAF]"

text \<open>The literal of callApi, line 352, as UTF-8 bytes; in English: "API call failed (".\<close>

definition msg_http_prefix :: string where
  "msg_http_prefix =
     ''API'' @ [CHR 0xE8, CHR 0xB0, CHR 0x83, CHR 0xE7, CHR 0x94, CHR 0xA8, CHR 0xE5,
     CHR 0xA4, CHR 0xB1, CHR 0xE8, CHR 0xB4, CHR 0xA5] @ '' (''"

text \<open>The literal of callApi, line 394, as UTF-8 bytes; in English: "a reply was received, but its content is empty".\<close>

definition msg_empty_reply :: string where
  "msg_empty_reply =
     [CHR 0xE6, CHR 0x94, CHR 0xB6, CHR 0xE5, CHR 0x88, CHR 0xB0, CHR 0xE5, CHR 0x9B,
     CHR 0x9E, CHR 0xE5, CHR 0xA4, CHR 0x8D, CHR 0xEF, CHR 0xBC, CHR 0x8C, CHR 0xE4,
     CHR 0xBD, CHR 0x86, CHR 0xE5, CHR 0x86, CHR 0x85, CHR 0xE5, CHR 0xAE, CHR 0xB9,
     CHR 0xE4, CHR 0xB8, CHR 0xBA, CHR 0xE7, CHR 0xA9, CHR 0xBA]"

text \<open>The literal of callApi, line 405, as UTF-8 bytes; in English: "the API returned the error status: ".\<close>

definition msg_status_prefix :: string where
  "msg_status_prefix =
     ''API'' @ [CHR 0xE8, CHR 0xBF, CHR 0x94, CHR 0xE5, CHR 0x9B, CHR 0x9E, CHR 0xE9,
     CHR 0x94, CHR 0x99, CHR 0xE8, CHR 0xAF, CHR 0xAF, CHR 0xE7, CHR 0x8A, CHR 0xB6,
     CHR 0xE6, CHR 0x80, CHR 0x81] @ '': ''"

text \<open>The literal of callApi, line 429, as UTF-8 bytes; in English: "a response was received, but its content is empty".\<close>

definition msg_empty_body :: string where
  "msg_empty_body =
     [CHR 0xE6, CHR 0x94, CHR 0xB6, CHR 0xE5, CHR 0x88, CHR 0xB0, CHR 0xE5, CHR 0x93,
     CHR 0x8D, CHR 0xE5, CHR 0xBA, CHR 0x94, CHR 0xEF, CHR 0xBC, CHR 0x8C, CHR 0xE4,
     CHR 0xBD, CHR 0x86, CHR 0xE5, CHR 0x86, CHR 0x85, CHR 0xE5, CHR 0xAE, CHR 0xB9,
     CHR 0xE4, CHR 0xB8, CHR 0xBA, CHR 0xE7, CHR 0xA9, CHR 0xBA]"

text \<open>The literal of callApi, line 434, as UTF-8 bytes; in English: "the request timed out, check the network connection or the API's response speed".\<close>

definition msg_timeout :: string where
  "msg_timeout =
     [CHR 0xE8, CHR 0xAF, CHR 0xB7, CHR 0xE6, CHR 0xB1, CHR 0x82, CHR 0xE8, CHR 0xB6,
     CHR 0x85, CHR 0xE6, CHR 0x97, CHR 0xB6, CHR 0xEF, CHR 0xBC, CHR 0x8C, CHR 0xE8,
     CHR 0xAF, CHR 0xB7, CHR 0xE6, CHR 0xA3, CHR 0x80, CHR 0xE6, CHR 0x9F, CHR 0xA5,
     CHR 0xE7, CHR 0xBD, CHR 0x91, CHR 0xE7, CHR 0xBB, CHR 0x9C, CHR 0xE8, CHR 0xBF,
     CHR 0x9E, CHR 0xE6, CHR 0x8E, CHR 0xA5, CHR 0xE6, CHR 0x88, CHR 0x96] @ ''API'' @
     [CHR 0xE5, CHR 0x93, CHR 0x8D, CHR 0xE5, CHR 0xBA, CHR 0x94, CHR 0xE9, CHR 0x80,
     CHR 0x9F, CHR 0xE5, CHR 0xBA, CHR 0xA6]"

text \<open>The literal of callApi, line 437, as UTF-8 bytes; in English: "network connection failed, two line breaks, diagnostic information:, line break".\<close>

definition msg_network_head :: string where
  "msg_network_head =
     [CHR 0xE7, CHR 0xBD, CHR 0x91, CHR 0xE7, CHR 0xBB, CHR 0x9C, CHR 0xE8, CHR 0xBF,
     CHR 0x9E, CHR 0xE6, CHR 0x8E, CHR 0xA5, CHR 0xE5, CHR 0xA4, CHR 0xB1, CHR 0xE8,
     CHR 0xB4, CHR 0xA5, CHR 0x0A, CHR 0x0A, CHR 0xE8, CHR 0xAF, CHR 0x8A, CHR 0xE6,
     CHR 0x96, CHR 0xAD, CHR 0xE4, CHR 0xBF, CHR 0xA1, CHR 0xE6, CHR 0x81, CHR 0xAF,
     CHR 0xEF, CHR 0xBC, CHR 0x9A, CHR 0x0A]"

text \<open>The literal of callApi, line 437, as UTF-8 bytes; in English: "the four numbered things to check".\<close>

definition msg_network_tail :: string where
  "msg_network_tail =
     [CHR 0x0A, CHR 0x0A, CHR 0xE8, CHR 0xAF, CHR 0xB7, CHR 0xE6, CHR 0xA3, CHR 0x80,
     CHR 0xE6, CHR 0x9F, CHR 0xA5, CHR 0xEF, CHR 0xBC, CHR 0x9A, CHR 0x0A] @ ''1. API URL''
     @ [CHR 0xE6, CHR 0x98, CHR 0xAF, CHR 0xE5, CHR 0x90, CHR 0xA6, CHR 0xE6, CHR 0xAD,
     CHR 0xA3, CHR 0xE7, CHR 0xA1, CHR 0xAE, CHR 0x0A] @ ''2. '' @ [CHR 0xE7, CHR 0xBD,
     CHR 0x91, CHR 0xE7, CHR 0xBB, CHR 0x9C, CHR 0xE8, CHR 0xBF, CHR 0x9E, CHR 0xE6,
     CHR 0x8E, CHR 0xA5, CHR 0xE6, CHR 0x98, CHR 0xAF, CHR 0xE5, CHR 0x90, CHR 0xA6,
     CHR 0xE6, CHR 0xAD, CHR 0xA3, CHR 0xE5, CHR 0xB8, CHR 0xB8, CHR 0x0A] @ ''3. API'' @
     [CHR 0xE6, CHR 0x98, CHR 0xAF, CHR 0xE5, CHR 0x90, CHR 0xA6, CHR 0xE6, CHR 0x94,
     CHR 0xAF, CHR 0xE6, CHR 0x8C, CHR 0x81] @ ''CORS'' @ [CHR 0xE8, CHR 0xB7, CHR 0xA8,
     CHR 0xE5, CHR 0x9F, CHR 0x9F, CHR 0xE8, CHR 0xAF, CHR 0xB7, CHR 0xE6, CHR 0xB1,
     CHR 0x82, CHR 0x0A] @ ''4. PowerBI'' @ [CHR 0xE7, CHR 0xBD, CHR 0x91, CHR 0xE7,
     CHR 0xBB, CHR 0x9C, CHR 0xE7, CHR 0xAD, CHR 0x96, CHR 0xE7, CHR 0x95, CHR 0xA5,
     CHR 0xE8, CHR 0xAE, CHR 0xBE, CHR 0xE7, CHR 0xBD, CHR 0xAE]"

text \<open>The literal of callApi, line 439, as UTF-8 bytes; in English: "the cross-origin request was blocked, make sure the API Gateway has the right CORS policy".\<close>

definition msg_cors :: string where
  "msg_cors =
     [CHR 0xE8, CHR 0xB7, CHR 0xA8, CHR 0xE5, CHR 0x9F, CHR 0x9F, CHR 0xE8, CHR 0xAF,
     CHR 0xB7, CHR 0xE6, CHR 0xB1, CHR 0x82, CHR 0xE8, CHR 0xA2, CHR 0xAB, CHR 0xE9,
     CHR 0x98, CHR 0xBB, CHR 0xE6, CHR 0xAD, CHR 0xA2, CHR 0xEF, CHR 0xBC, CHR 0x8C,
     CHR 0xE8, CHR 0xAF, CHR 0xB7, CHR 0xE7, CHR 0xA1, CHR 0xAE, CHR 0xE4, CHR 0xBF,
     CHR 0x9D] @ ''API Gateway'' @ [CHR 0xE9, CHR 0x85, CHR 0x8D, CHR 0xE7, CHR 0xBD,
     CHR 0xAE, CHR 0xE4, CHR 0xBA, CHR 0x86, CHR 0xE6, CHR 0xAD, CHR 0xA3, CHR 0xE7,
     CHR 0xA1, CHR 0xAE, CHR 0xE7, CHR 0x9A, CHR 0x84] @ ''CORS'' @ [CHR 0xE7, CHR 0xAD,
     CHR 0x96, CHR 0xE7, CHR 0x95, CHR 0xA5]"

text \<open>The literal of callApi, line 441, as UTF-8 bytes; in English: "request configuration error, check the format of the API URL and the request parameters".\<close>

definition msg_request_config :: string where
  "msg_request_config =
     [CHR 0xE8, CHR 0xAF, CHR 0xB7, CHR 0xE6, CHR 0xB1, CHR 0x82, CHR 0xE9, CHR 0x85,
     CHR 0x8D, CHR 0xE7, CHR 0xBD, CHR 0xAE, CHR 0xE9, CHR 0x94, CHR 0x99, CHR 0xE8,
     CHR 0xAF, CHR 0xAF, CHR 0xEF, CHR 0xBC, CHR 0x8C, CHR 0xE8, CHR 0xAF, CHR 0xB7,
     CHR 0xE6, CHR 0xA3, CHR 0x80, CHR 0xE6, CHR 0x9F, CHR 0xA5] @ ''API URL'' @ [CHR 0xE6,
     CHR 0xA0, CHR 0xBC, CHR 0xE5, CHR 0xBC, CHR 0x8F, CHR 0xE5, CHR 0x92, CHR 0x8C,
     CHR 0xE8, CHR 0xAF, CHR 0xB7, CHR 0xE6, CHR 0xB1, CHR 0x82, CHR 0xE5, CHR 0x8F,
     CHR 0x82, CHR 0xE6, CHR 0x95, CHR 0xB0]"

text \<open>The literal of performNetworkDiagnostics, line 243, as UTF-8 bytes; in English: "check mark, the URL format is right: ".\<close>

definition diag_url_ok :: string where
  "diag_url_ok =
     [CHR 0xE2, CHR 0x9C, CHR 0x93] @ '' URL'' @ [CHR 0xE6, CHR 0xA0, CHR 0xBC, CHR 0xE5,
     CHR 0xBC, CHR 0x8F, CHR 0xE6, CHR 0xAD, CHR 0xA3, CHR 0xE7, CHR 0xA1, CHR 0xAE] @
     '': ''"

text \<open>The literal of performNetworkDiagnostics, line 246, as UTF-8 bytes; in English: "warning sign, protocol warning: using".\<close>

definition diag_protocol_warn :: string where
  "diag_protocol_warn =
     [CHR 0xE2, CHR 0x9A, CHR 0xA0, CHR 0xEF, CHR 0xB8, CHR 0x8F] @ '' '' @ [CHR 0xE5,
     CHR 0x8D, CHR 0x8F, CHR 0xE8, CHR 0xAE, CHR 0xAE, CHR 0xE8, CHR 0xAD, CHR 0xA6,
     CHR 0xE5, CHR 0x91, CHR 0x8A] @ '': '' @ [CHR 0xE4, CHR 0xBD, CHR 0xBF, CHR 0xE7,
     CHR 0x94, CHR 0xA8]"

text \<open>The literal of performNetworkDiagnostics, line 246, as UTF-8 bytes; in English: ", PowerBI requires HTTPS".\<close>

definition diag_protocol_warn_tail :: string where
  "diag_protocol_warn_tail =
     [CHR 0xEF, CHR 0xBC, CHR 0x8C] @ ''PowerBI'' @ [CHR 0xE8, CHR 0xA6, CHR 0x81, CHR 0xE6,
     CHR 0xB1, CHR 0x82] @ ''HTTPS''"

text \<open>The literal of performNetworkDiagnostics, line 250, as UTF-8 bytes; in English: "information sign, port: ".\<close>

definition diag_port :: string where
  "diag_port =
     [CHR 0xE2, CHR 0x84, CHR 0xB9, CHR 0xEF, CHR 0xB8, CHR 0x8F] @ '' '' @ [CHR 0xE7,
     CHR 0xAB, CHR 0xAF, CHR 0xE5, CHR 0x8F, CHR 0xA3, CHR 0xE4, CHR 0xBF, CHR 0xA1,
     CHR 0xE6, CHR 0x81, CHR 0xAF] @ '': ''"

text \<open>The literal of performNetworkDiagnostics, line 253, as UTF-8 bytes; in English: "cross mark, the URL format is wrong: ".\<close>

definition diag_url_bad :: string where
  "diag_url_bad =
     [CHR 0xE2, CHR 0x9D, CHR 0x8C] @ '' URL'' @ [CHR 0xE6, CHR 0xA0, CHR 0xBC, CHR 0xE5,
     CHR 0xBC, CHR 0x8F, CHR 0xE9, CHR 0x94, CHR 0x99, CHR 0xE8, CHR 0xAF, CHR 0xAF] @
     '': ''"

text \<open>The literal of performNetworkDiagnostics, line 257, as UTF-8 bytes; in English: "globe, runtime environment: PowerBI Desktop/Service".\<close>

definition diag_environment :: string where
  "diag_environment =
     [CHR 0xF0, CHR 0x9F, CHR 0x8C, CHR 0x90] @ '' '' @ [CHR 0xE8, CHR 0xBF, CHR 0x90,
     CHR 0xE8, CHR 0xA1, CHR 0x8C, CHR 0xE7, CHR 0x8E, CHR 0xAF, CHR 0xE5, CHR 0xA2,
     CHR 0x83] @ '': PowerBI Desktop/Service''"

text \<open>The literal of performNetworkDiagnostics, line 258, as UTF-8 bytes; in English: "lock, security mode: sandbox".\<close>

definition diag_sandbox :: string where
  "diag_sandbox =
     [CHR 0xF0, CHR 0x9F, CHR 0x94, CHR 0x92] @ '' '' @ [CHR 0xE5, CHR 0xAE, CHR 0x89,
     CHR 0xE5, CHR 0x85, CHR 0xA8, CHR 0xE6, CHR 0xA8, CHR 0xA1, CHR 0xE5, CHR 0xBC,
     CHR 0x8F] @ '': '' @ [CHR 0xE6, CHR 0xB2, CHR 0x99, CHR 0xE7, CHR 0xAE, CHR 0xB1,
     CHR 0xE7, CHR 0x8E, CHR 0xAF, CHR 0xE5, CHR 0xA2, CHR 0x83]"

text \<open>The literal of performNetworkDiagnostics, line 262, as UTF-8 bytes; in English: "open lock, authentication: none".\<close>

definition diag_auth_none :: string where
  "diag_auth_none =
     [CHR 0xF0, CHR 0x9F, CHR 0x94, CHR 0x93] @ '' '' @ [CHR 0xE8, CHR 0xAE, CHR 0xA4,
     CHR 0xE8, CHR 0xAF, CHR 0x81, CHR 0xE6, CHR 0x96, CHR 0xB9, CHR 0xE5, CHR 0xBC,
     CHR 0x8F] @ '': '' @ [CHR 0xE6, CHR 0x97, CHR 0xA0, CHR 0xE8, CHR 0xAE, CHR 0xA4,
     CHR 0xE8, CHR 0xAF, CHR 0x81]"

text \<open>The literal of performNetworkDiagnostics, line 265, as UTF-8 bytes; in English: "closed lock with key, authentication: ".\<close>

definition diag_auth :: string where
  "diag_auth =
     [CHR 0xF0, CHR 0x9F, CHR 0x94, CHR 0x90] @ '' '' @ [CHR 0xE8, CHR 0xAE, CHR 0xA4,
     CHR 0xE8, CHR 0xAF, CHR 0x81, CHR 0xE6, CHR 0x96, CHR 0xB9, CHR 0xE5, CHR 0xBC,
     CHR 0x8F] @ '': ''"

text \<open>The literal of performNetworkDiagnostics, line 265, as UTF-8 bytes; in English: "(configured)".\<close>

definition diag_key_set :: string where
  "diag_key_set =
     ''('' @ [CHR 0xE5, CHR 0xB7, CHR 0xB2, CHR 0xE9, CHR 0x85, CHR 0x8D, CHR 0xE7,
     CHR 0xBD, CHR 0xAE] @ '')''"

text \<open>The literal of performNetworkDiagnostics, line 265, as UTF-8 bytes; in English: "(no key configured)".\<close>

definition diag_key_unset :: string where
  "diag_key_unset =
     ''('' @ [CHR 0xE6, CHR 0x9C, CHR 0xAA, CHR 0xE9, CHR 0x85, CHR 0x8D, CHR 0xE7,
     CHR 0xBD, CHR 0xAE, CHR 0xE5, CHR 0xAF, CHR 0x86, CHR 0xE9, CHR 0x92, CHR 0xA5] @ '')''"

text \<open>The literal of performNetworkDiagnostics, line 269, as UTF-8 bytes; in English: "alarm clock, time of the diagnosis: ".\<close>

definition diag_time :: string where
  "diag_time =
     [CHR 0xE2, CHR 0x8F, CHR 0xB0] @ '' '' @ [CHR 0xE8, CHR 0xAF, CHR 0x8A, CHR 0xE6,
     CHR 0x96, CHR 0xAD, CHR 0xE6, CHR 0x97, CHR 0xB6, CHR 0xE9, CHR 0x97, CHR 0xB4] @
     '': ''"
section \<open>JSON values\<close>

text \<open>
  What \<^verbatim>\<open>JSON.parse\<close> returns. A number is a real (every double is one, and the two zeros
  behave alike below); an object is its list of members, read by key. A value of the source
  that may be \<^verbatim>\<open>undefined\<close> is a \<open>json option\<close> with \<open>None\<close> for \<^verbatim>\<open>undefined\<close>.
\<close>

datatype json =
    JNull
  | JBool bool
  | JNum real
  | JStr string
  | JArr "json list"
  | JObj "(string \<times> json) list"

type_synonym jsval = "json option"

fun truthy_json :: "json \<Rightarrow> bool" where
  "truthy_json JNull = False"
| "truthy_json (JBool b) = b"
| "truthy_json (JNum x) = (x \<noteq> 0)"
| "truthy_json (JStr s) = (s \<noteq> [])"
| "truthy_json (JArr xs) = True"
| "truthy_json (JObj kvs) = True"

fun truthy :: "jsval \<Rightarrow> bool" where
  "truthy None = False"
| "truthy (Some v) = truthy_json v"

text \<open>\<^verbatim>\<open>a || b\<close>.\<close>

definition js_or :: "jsval \<Rightarrow> jsval \<Rightarrow> jsval" where
  "js_or a b = (if truthy a then a else b)"

text \<open>
  \<^verbatim>\<open>v.k\<close> on a value that is not \<^verbatim>\<open>null\<close>, for the member names the source reads
  (none of them is a built-in property of a string, a number, a boolean or an array).
\<close>

fun get_prop :: "json \<Rightarrow> string \<Rightarrow> jsval" where
  "get_prop (JObj kvs) k = map_of kvs k"
| "get_prop v k = None"

text \<open>\<^verbatim>\<open>v?.k\<close>: \<^verbatim>\<open>undefined\<close> on \<^verbatim>\<open>undefined\<close> and on \<^verbatim>\<open>null\<close>.\<close>

fun opt_prop :: "jsval \<Rightarrow> string \<Rightarrow> jsval" where
  "opt_prop None k = None"
| "opt_prop (Some JNull) k = None"
| "opt_prop (Some v) k = get_prop v k"

text \<open>
  \<^verbatim>\<open>v?.[0]\<close>. On a string it is the one-character string at index 0; the model keeps the
  first byte, and the decoder only reads \<^verbatim>\<open>delta\<close> from it, which no string has.
\<close>

fun opt_index0 :: "jsval \<Rightarrow> jsval" where
  "opt_index0 None = None"
| "opt_index0 (Some JNull) = None"
| "opt_index0 (Some (JArr [])) = None"
| "opt_index0 (Some (JArr (x # xs))) = Some x"
| "opt_index0 (Some (JObj kvs)) = map_of kvs ''0''"
| "opt_index0 (Some (JStr s)) = (if s = [] then None else Some (JStr (take 1 s)))"
| "opt_index0 (Some v) = None"

text \<open>
  The conversion of a value to a string (string concatenation, a template literal, the
  argument of \<^verbatim>\<open>new Error\<close>). The printing of a number is the platform's and a parameter.
  An array joins its elements with commas, \<^verbatim>\<open>null\<close> elements as empty strings. An object
  prints as \<^verbatim>\<open>[object Object]\<close>, unless it has a member \<^verbatim>\<open>toString\<close> of its own: that
  member shadows the inherited method and is not callable, and the conversion throws a
  TypeError, here \<open>None\<close>.
\<close>

fun to_string :: "(real \<Rightarrow> string) \<Rightarrow> json \<Rightarrow> string option" where
  "to_string num JNull = Some ''null''"
| "to_string num (JBool b) = Some (if b then ''true'' else ''false'')"
| "to_string num (JNum x) = Some (num x)"
| "to_string num (JStr s) = Some s"
| "to_string num (JArr xs) =
     (let ys = map (\<lambda>v. case v of JNull \<Rightarrow> Some [] | _ \<Rightarrow> to_string num v) xs
      in map_option (join '','') (those ys))"
| "to_string num (JObj kvs) =
     (if map_of kvs ''toString'' = None then Some ''[object Object]'' else None)"

section \<open>Errors, responses, settings and the environment\<close>

text \<open>A thrown error object with its \<^verbatim>\<open>name\<close> and \<^verbatim>\<open>message\<close>.\<close>

datatype js_error = JsError (err_name: string) (err_message: string)

text \<open>\<^verbatim>\<open>new Error(m)\<close>.\<close>

definition new_Error :: "string \<Rightarrow> js_error" where
  "new_Error m = JsError ''Error'' m"

text \<open>
  What \<^verbatim>\<open>fetch\<close> resolves to. \<open>contentType\<close> is \<^verbatim>\<open>headers.get("content-type")\<close>, \<open>None\<close> for
  \<^verbatim>\<open>null\<close>; \<open>bodyText\<close> is the outcome of \<^verbatim>\<open>response.text()\<close>, which may reject.
\<close>

record response =
  status :: nat
  statusText :: string
  contentType :: "string option"
  bodyText :: "js_error + string"

text \<open>\<^verbatim>\<open>response.ok\<close>: the status is in the range 200 to 299.\<close>

definition ok :: "response \<Rightarrow> bool" where
  "ok r = (200 \<le> status r \<and> status r \<le> 299)"

text \<open>The interface \<^verbatim>\<open>ApiSettings\<close> and the field initialiser of the class (lines 47-65).\<close>

record api_settings =
  apiUrl :: string
  apiKey :: string
  authType :: string

definition initial_settings :: api_settings where
  "initial_settings = \<lparr>apiUrl = '''', apiKey = '''', authType = ''Bearer''\<rparr>"

text \<open>The request \<^verbatim>\<open>callApi\<close> hands to \<^verbatim>\<open>fetch\<close>; the body is the object that is serialised.\<close>

record request_body =
  body_message :: string
  body_timestamp :: string
  body_stream :: bool

record request =
  req_url :: string
  req_method :: string
  req_headers :: "string \<rightharpoonup> string"
  req_body :: request_body
  req_mode :: string
  req_credentials :: string
  req_cache :: string
  req_redirect :: string
  req_timeout :: nat

text \<open>What \<^verbatim>\<open>new URL(s)\<close> exposes to the diagnostics.\<close>

record url =
  protocol :: string
  host :: string
  port :: string

text \<open>
  The TypeErrors the engine raises by itself, with messages of its own choice: reading a
  property of \<^verbatim>\<open>null\<close> or \<^verbatim>\<open>undefined\<close>, calling what is not a function, converting an
  object that has no primitive value, constructing a \<^verbatim>\<open>Response\<close> with a body for a status
  that allows none.
\<close>

datatype type_error_kind = PropertyOfNull | NotAFunction | NotPrimitive | NullBodyStatus

text \<open>
  The platform, as parameters. \<open>fetchOutcome k\<close> is what the k-th call of \<^verbatim>\<open>fetch\<close> (from 0)
  does: it rejects with an error or resolves to a response; the timer of 60 seconds that
  aborts the call shows as a rejection named \<^verbatim>\<open>AbortError\<close>. \<open>isoTime k\<close> and \<open>localeTime k\<close>
  are the clock as read when the k-th request is built and when its failure is diagnosed.
  \<open>jsonParse\<close> is \<^verbatim>\<open>JSON.parse\<close>, \<open>None\<close> when it throws; \<open>random i\<close> is the i-th value of
  \<^verbatim>\<open>Math.random\<close> during a playback; \<open>bodyChunks\<close> is how the stream of
  \<^verbatim>\<open>new Response(text)\<close> delivers the text to a reader.
\<close>

record env =
  fetchOutcome :: "nat \<Rightarrow> js_error + response"
  isoTime :: "nat \<Rightarrow> string"
  localeTime :: "nat \<Rightarrow> string"
  parseUrl :: "string \<Rightarrow> url option"
  jsonParse :: "string \<Rightarrow> json option"
  jsonStringify :: "json \<Rightarrow> string"
  numToString :: "real \<Rightarrow> string"
  typeError :: "type_error_kind \<Rightarrow> js_error"
  random :: "nat \<Rightarrow> real"
  bodyChunks :: "string \<Rightarrow> string list"

text \<open>
  What the code does to the outside, in order: the calls of \<^verbatim>\<open>fetch\<close>, the waits on a
  timer (milliseconds), and the calls of the methods that write a message slot of the
  page (message id, text). \<^verbatim>\<open>console.log\<close> is left out.
\<close>

datatype event =
    Fetch request
  | Sleep real
  | RemoveStreamingEffect string
  | UpdateMessage string string
  | UpdateMessageWithTyping string string
  | FinishTyping string string
  | ReleaseLock

type_synonym world = "event list"

fun is_Fetch :: "event \<Rightarrow> bool" where
  "is_Fetch (Fetch r) = True"
| "is_Fetch e = False"

text \<open>The number of transport invocations so far.\<close>

definition fetch_count :: "world \<Rightarrow> nat" where
  "fetch_count w = length (filter is_Fetch w)"

text \<open>
  \<^verbatim>\<open>if (messageId) { ... }\<close>: the events happen when the optional id is given and is not
  the empty string.
\<close>

fun with_id :: "string option \<Rightarrow> (string \<Rightarrow> event list) \<Rightarrow> event list" where
  "with_id None f = []"
| "with_id (Some i) f = (if i = [] then [] else f i)"

section \<open>Configuration update (\<^verbatim>\<open>update\<close>, lines 659-668)\<close>

text \<open>
  The part of \<^verbatim>\<open>VisualUpdateOptions\<close> the method reads: the data views, each with its
  metadata, whose \<^verbatim>\<open>objects\<close> are optional and map an object name to its properties.
  The property values are strings, as the source's casts say.
\<close>

record data_view_metadata =
  objects :: "(string \<rightharpoonup> (string \<rightharpoonup> string)) option"

record data_view =
  metadata :: data_view_metadata

record visual_update_options =
  dataViews :: "data_view list"

text \<open>\<^verbatim>\<open>v as string || d\<close> on an optional property.\<close>

fun or_default :: "string option \<Rightarrow> string \<Rightarrow> string" where
  "or_default None d = d"
| "or_default (Some v) d = (if v = [] then d else v)"

text \<open>\<^verbatim>\<open>options.dataViews[0]?.metadata.objects?.apiSettings\<close>.\<close>

definition payload_apiSettings :: "visual_update_options \<Rightarrow> (string \<rightharpoonup> string) option" where
  "payload_apiSettings options =
     (case dataViews options of
        [] \<Rightarrow> None
      | dv # _ \<Rightarrow>
          (case objects (metadata dv) of
             None \<Rightarrow> None
           | Some objs \<Rightarrow> objs ''apiSettings''))"

definition update :: "api_settings \<Rightarrow> visual_update_options \<Rightarrow> api_settings" where
  "update s options =
     (case payload_apiSettings options of
        None \<Rightarrow> s
      | Some a \<Rightarrow>
          s\<lparr>apiUrl := or_default (a ''apiUrl'') '''',
            apiKey := or_default (a ''apiKey'') '''',
            authType := or_default (a ''authType'') ''Bearer''\<rparr>)"

section \<open>Request construction (\<^verbatim>\<open>callApi\<close>, lines 313-346)\<close>

definition auth_headers :: "api_settings \<Rightarrow> (string \<rightharpoonup> string)" where
  "auth_headers s =
     (let headers = [''Content-Type'' \<mapsto> ''application/json'',
                     ''Accept'' \<mapsto> ''text/event-stream, application/json'']
      in if authType s \<noteq> ''None'' \<and> apiKey s \<noteq> [] then
           if authType s = ''Bearer'' then headers(''Authorization'' \<mapsto> ''Bearer '' @ apiKey s)
           else if authType s = ''ApiKey'' then headers(''X-API-Key'' \<mapsto> apiKey s)
           else headers
         else headers)"

definition build_request :: "api_settings \<Rightarrow> string \<Rightarrow> string \<Rightarrow> request" where
  "build_request s message now =
     \<lparr>req_url = apiUrl s,
      req_method = ''POST'',
      req_headers = auth_headers s,
      req_body = \<lparr>body_message = message, body_timestamp = now, body_stream = True\<rparr>,
      req_mode = ''cors'',
      req_credentials = ''omit'',
      req_cache = ''no-cache'',
      req_redirect = ''follow'',
      req_timeout = 60000\<rparr>"

section \<open>Simulated playback (\<^verbatim>\<open>simulateTypingEffect\<close>, lines 632-647)\<close>

text \<open>
  The loop over \<^verbatim>\<open>words\<close>: \<open>i\<close> is the index of the head of the remaining words and
  \<open>currentText\<close> the text shown so far. Each round shows the longer text and waits.
\<close>

fun typing_loop :: "env \<Rightarrow> string \<Rightarrow> string list \<Rightarrow> nat \<Rightarrow> string \<Rightarrow> world \<Rightarrow> world" where
  "typing_loop env messageId [] i currentText w = w"
| "typing_loop env messageId (word # rest) i currentText w =
     (let currentText' = currentText @ (if 0 < i then '' '' else '''') @ word;
          delay = random env i * 100 + 50
      in typing_loop env messageId rest (Suc i) currentText'
           (w @ [UpdateMessageWithTyping messageId currentText', Sleep delay]))"

definition simulateTypingEffect :: "env \<Rightarrow> string \<Rightarrow> string \<Rightarrow> world \<Rightarrow> world" where
  "simulateTypingEffect env messageId text w =
     typing_loop env messageId (split_on CHR '' '' text) 0 '''' w @ [FinishTyping messageId text]"

section \<open>Stream decoding (\<^verbatim>\<open>handleStreamResponse\<close>, lines 112-197)\<close>

text \<open>
  The \<^verbatim>\<open>try\<close> block of lines 157-161: \<^verbatim>\<open>JSON.parse\<close> and the choice of the content.
  The outer \<open>None\<close> is an exception: the payload is not JSON, or it is \<^verbatim>\<open>null\<close> and reading
  \<^verbatim>\<open>choices\<close> from it throws.
\<close>

definition extract_content :: "env \<Rightarrow> string \<Rightarrow> jsval option" where
  "extract_content env data =
     (case jsonParse env data of
        None \<Rightarrow> None
      | Some JNull \<Rightarrow> None
      | Some parsed \<Rightarrow>
          Some (js_or (opt_prop (opt_prop (opt_index0 (get_prop parsed ''choices'')) ''delta'') ''content'')
               (js_or (get_prop parsed ''content'')
               (js_or (get_prop parsed ''text'')
               (js_or (get_prop parsed ''message'') (Some (JStr '''')))))))"

text \<open>Appending a fragment and reporting the whole text so far (lines 164-173, 178-181).\<close>

definition append_fragment :: "string option \<Rightarrow> string \<Rightarrow> string \<times> world \<Rightarrow> string \<times> world" where
  "append_fragment messageId fragment st =
     (let fullResponse = fst st @ fragment
      in (fullResponse, snd st @ with_id messageId (\<lambda>i. [UpdateMessageWithTyping i fullResponse])))"

text \<open>The \<^verbatim>\<open>catch\<close> block of lines 175-183: the payload itself is the text.\<close>

definition raw_payload :: "string option \<Rightarrow> string \<Rightarrow> string \<times> world \<Rightarrow> string \<times> world" where
  "raw_payload messageId data st = (if blank data then st else append_fragment messageId data st)"

text \<open>
  Lines 156-183 for one payload. A content that cannot be converted to a string throws
  inside the \<^verbatim>\<open>try\<close> block too, before the text has changed.
\<close>

definition consume_payload :: "env \<Rightarrow> string option \<Rightarrow> string \<Rightarrow> string \<times> world \<Rightarrow> string \<times> world" where
  "consume_payload env messageId data st =
     (case extract_content env data of
        None \<Rightarrow> raw_payload messageId data st
      | Some content \<Rightarrow>
          (case content of
             None \<Rightarrow> st
           | Some v \<Rightarrow>
               if truthy_json v then
                 (case to_string (numToString env) v of
                    None \<Rightarrow> raw_payload messageId data st
                  | Some fragment \<Rightarrow> append_fragment messageId fragment st)
               else st))"

text \<open>
  The \<^verbatim>\<open>for\<close> loop over the complete lines of one chunk (lines 144-185); the state is
  \<^verbatim>\<open>fullResponse\<close> and the world. \<^verbatim>\<open>break\<close> leaves this loop.
\<close>

fun process_lines :: "env \<Rightarrow> string option \<Rightarrow> string list \<Rightarrow> string \<times> world \<Rightarrow> string \<times> world" where
  "process_lines env messageId [] st = st"
| "process_lines env messageId (line # rest) st =
     (if blank line then process_lines env messageId rest st
      else if startsWith line ''data: '' then
        (let data = drop 6 line
         in if data = ''[DONE]'' then st
            else process_lines env messageId rest (consume_payload env messageId data st))
      else process_lines env messageId rest st)"

text \<open>
  The \<^verbatim>\<open>while\<close> loop over the chunks the reader delivers (lines 130-186); \<open>buffer\<close> is the
  incomplete last line, kept for the next chunk.
\<close>

fun read_loop :: "env \<Rightarrow> string option \<Rightarrow> string list \<Rightarrow> string \<Rightarrow> string \<times> world \<Rightarrow> string \<times> world" where
  "read_loop env messageId [] buffer st = st"
| "read_loop env messageId (chunk # chunks) buffer st =
     (let lines = split_on newline (buffer @ chunk)
      in read_loop env messageId chunks (last lines)
           (process_lines env messageId (butlast lines) st))"

text \<open>
  The body stream as the reader sees it: the chunks it delivers, as text, and the error
  of the read that rejects after them, if one does.
\<close>

record stream_reader =
  chunks :: "string list"
  read_failure :: "js_error option"

definition handleStreamResponse ::
  "env \<Rightarrow> stream_reader option \<Rightarrow> string option \<Rightarrow> world \<Rightarrow> (js_error + string) \<times> world" where
  "handleStreamResponse env reader messageId w =
     (case reader of
        None \<Rightarrow> (Inl (new_Error msg_no_reader), w)
      | Some rd \<Rightarrow>
          (let w0 = w @ with_id messageId (\<lambda>i. [RemoveStreamingEffect i, UpdateMessage i '''']);
               st = read_loop env messageId (chunks rd) '''' ('''', w0);
               fullResponse = fst st;
               w1 = snd st @ [ReleaseLock]
                    @ (if fullResponse \<noteq> [] then with_id messageId (\<lambda>i. [FinishTyping i fullResponse])
                       else [])
           in case read_failure rd of
                Some e \<Rightarrow> (Inl e, w1)
              | None \<Rightarrow> (Inr (if fullResponse = [] then msg_empty_stream else fullResponse), w1)))"

section \<open>Diagnostics (\<^verbatim>\<open>performNetworkDiagnostics\<close>, lines 237-272)\<close>

definition performNetworkDiagnostics :: "env \<Rightarrow> api_settings \<Rightarrow> nat \<Rightarrow> string" where
  "performNetworkDiagnostics env s k =
     join [newline]
       ((case parseUrl env (apiUrl s) of
           Some u \<Rightarrow>
             [diag_url_ok @ protocol u @ ''//'' @ host u]
             @ (if protocol u \<noteq> ''https:''
                then [diag_protocol_warn @ protocol u @ diag_protocol_warn_tail] else [])
             @ (if port u \<noteq> [] \<and> port u \<noteq> ''443'' then [diag_port @ port u] else [])
         | None \<Rightarrow> [diag_url_bad @ apiUrl s])
        @ [diag_environment, diag_sandbox]
        @ [if authType s = ''None'' then diag_auth_none
           else diag_auth @ authType s @ '' ''
                @ (if apiKey s \<noteq> [] then diag_key_set else diag_key_unset)]
        @ [diag_time @ localeTime env k])"

section \<open>One exchange (\<^verbatim>\<open>callApi\<close>, lines 308-445)\<close>

text \<open>The string conversion of a value that may be \<^verbatim>\<open>undefined\<close>; \<open>None\<close> when it throws.\<close>

definition string_of :: "env \<Rightarrow> jsval \<Rightarrow> string option" where
  "string_of env v =
     (case v of None \<Rightarrow> Some ''undefined'' | Some x \<Rightarrow> to_string (numToString env) x)"

text \<open>
  The block \<^verbatim>\<open>if (messageId) { ... await this.simulateTypingEffect(messageId, text) }\<close>
  (lines 380-384, 396-400, 411-415, 423-427), and the error it throws if it does:
  \<^verbatim>\<open>text.split\<close> is a function on strings only.
\<close>

definition reveal :: "env \<Rightarrow> string option \<Rightarrow> jsval \<Rightarrow> world \<Rightarrow> js_error option \<times> world" where
  "reveal env messageId content w =
     (case messageId of
        None \<Rightarrow> (None, w)
      | Some i \<Rightarrow>
          if i = [] then (None, w)
          else
            (let w1 = w @ [RemoveStreamingEffect i, UpdateMessage i '''']
             in case content of
                  Some (JStr t) \<Rightarrow> (None, simulateTypingEffect env i t w1)
                | Some JNull \<Rightarrow> (Some (typeError env PropertyOfNull), w1)
                | None \<Rightarrow> (Some (typeError env PropertyOfNull), w1)
                | Some v \<Rightarrow> (Some (typeError env NotAFunction), w1)))"

text \<open>The block followed by \<^verbatim>\<open>return result\<close>.\<close>

definition reveal_and_return ::
  "env \<Rightarrow> string option \<Rightarrow> jsval \<Rightarrow> jsval \<Rightarrow> world \<Rightarrow> (js_error + jsval) \<times> world" where
  "reveal_and_return env messageId content result w =
     (case reveal env messageId content w of
        (Some e, w') \<Rightarrow> (Inl e, w')
      | (None, w') \<Rightarrow> (Inr result, w'))"

text \<open>\<^verbatim>\<open>data.response || data.message || data.reply || data.content || data.text || fallback\<close>.\<close>

definition reply_content :: "json \<Rightarrow> jsval \<Rightarrow> jsval" where
  "reply_content data fallback =
     js_or (get_prop data ''response'')
    (js_or (get_prop data ''message'')
    (js_or (get_prop data ''reply'')
    (js_or (get_prop data ''content'')
    (js_or (get_prop data ''text'') fallback))))"

text \<open>The condition of line 393.\<close>

definition success_flag :: "json \<Rightarrow> bool" where
  "success_flag data =
     (get_prop data ''statusCode'' = Some (JNum 200)
      \<or> get_prop data ''status'' = Some (JNum 200)
      \<or> get_prop data ''success'' = Some (JBool True))"

text \<open>
  Line 405 and 406: the message of the error is \<^verbatim>\<open>data.error || data.message\<close> or else
  the status description, converted to a string by \<^verbatim>\<open>new Error\<close>.
\<close>

definition api_error :: "env \<Rightarrow> json \<Rightarrow> js_error" where
  "api_error env data =
     (let given = js_or (get_prop data ''error'') (get_prop data ''message'');
          errorMessage =
            (if truthy given then string_of env given
             else map_option (\<lambda>t. msg_status_prefix @ t)
                    (string_of env (js_or (get_prop data ''statusCode'') (get_prop data ''status''))))
      in case errorMessage of
           None \<Rightarrow> typeError env NotPrimitive
         | Some m \<Rightarrow> new_Error m)"

text \<open>Lines 389-418, for the value \<open>data\<close> that \<^verbatim>\<open>JSON.parse\<close> returned.\<close>

definition json_response ::
  "env \<Rightarrow> string option \<Rightarrow> json \<Rightarrow> world \<Rightarrow> (js_error + jsval) \<times> world" where
  "json_response env messageId data w =
     (if data = JNull then (Inl (typeError env PropertyOfNull), w)
      else if success_flag data then
        (let responseContent = reply_content data (Some (JStr msg_empty_reply))
         in reveal_and_return env messageId responseContent responseContent w)
      else if truthy (get_prop data ''error'') \<or> get_prop data ''statusCode'' \<noteq> Some (JNum 200) then
        (Inl (api_error env data), w)
      else
        (let responseContent = reply_content data (Some (JStr (jsonStringify env data)))
         in reveal_and_return env messageId responseContent responseContent w))"

text \<open>\<^verbatim>\<open>contentType && contentType.includes(t)\<close>.\<close>

definition has_type :: "response \<Rightarrow> string \<Rightarrow> bool" where
  "has_type r t = (case contentType r of None \<Rightarrow> False | Some ct \<Rightarrow> ct \<noteq> [] \<and> js_includes ct t)"

text \<open>The message of line 352.\<close>

definition http_error_message :: "response \<Rightarrow> string" where
  "http_error_message r =
     msg_http_prefix @ decimal (status r) @ ''): '' @ statusText r @ ''. ''
     @ (case bodyText r of Inl e \<Rightarrow> msg_unknown_error | Inr errorText \<Rightarrow> errorText)"

text \<open>
  Lines 350-430: what \<^verbatim>\<open>callApi\<close> does with the response of \<^verbatim>\<open>fetch\<close>. On the event-stream
  path \<^verbatim>\<open>new Response(responseText, {status, ...})\<close> (line 365) throws a TypeError for the
  statuses 204 and 205, which allow no body; the other statuses from 200 to 299 pass.
\<close>

definition handle_response ::
  "env \<Rightarrow> string option \<Rightarrow> response \<Rightarrow> world \<Rightarrow> (js_error + jsval) \<times> world" where
  "handle_response env messageId r w =
     (if \<not> ok r then (Inl (new_Error (http_error_message r)), w)
      else
        (case bodyText r of
           Inl e \<Rightarrow> (Inl e, w)
         | Inr responseText \<Rightarrow>
             if has_type r ''text/event-stream'' then
               (if status r = 204 \<or> status r = 205 then
                  (Inl (typeError env NullBodyStatus), w)
                else
                  (case handleStreamResponse env
                          (Some \<lparr>chunks = bodyChunks env responseText, read_failure = None\<rparr>)
                          messageId w of
                     (Inl e, w') \<Rightarrow> (Inl e, w')
                   | (Inr t, w') \<Rightarrow> (Inr (Some (JStr t)), w')))
             else if has_type r ''application/json'' \<or> has_type r ''text/plain'' then
               (case jsonParse env responseText of
                  None \<Rightarrow>
                    reveal_and_return env messageId (Some (JStr responseText))
                      (Some (JStr responseText)) w
                | Some data \<Rightarrow> json_response env messageId data w)
             else
               reveal_and_return env messageId (Some (JStr responseText))
                 (Some (JStr (if responseText = [] then msg_empty_body else responseText))) w))"

text \<open>The \<^verbatim>\<open>catch\<close> block of lines 432-444, for the error of the k-th attempt.\<close>

definition classify_error :: "env \<Rightarrow> api_settings \<Rightarrow> nat \<Rightarrow> js_error \<Rightarrow> js_error" where
  "classify_error env s k error =
     (if err_name error = ''AbortError'' then new_Error msg_timeout
      else if js_includes (err_message error) ''Failed to fetch'' then
        new_Error (msg_network_head @ performNetworkDiagnostics env s k @ msg_network_tail)
      else if js_includes (err_message error) ''CORS'' then new_Error msg_cors
      else if js_includes (err_message error) ''TypeError'' then new_Error msg_request_config
      else error)"

definition callApi ::
  "env \<Rightarrow> api_settings \<Rightarrow> string \<Rightarrow> string option \<Rightarrow> world \<Rightarrow> (js_error + jsval) \<times> world" where
  "callApi env s message messageId w =
     (if apiUrl s = [] then (Inl (new_Error msg_no_url), w)
      else
        (let k = fetch_count w;
             w1 = w @ [Fetch (build_request s message (isoTime env k))]
         in case (case fetchOutcome env k of
                    Inl e \<Rightarrow> (Inl e, w1)
                  | Inr r \<Rightarrow> handle_response env messageId r w1) of
              (Inl e, w') \<Rightarrow> (Inl (classify_error env s k e), w')
            | (Inr v, w') \<Rightarrow> (Inr v, w')))"

section \<open>Retrying (\<^verbatim>\<open>callApiWithRetry\<close>, lines 276-306)\<close>

text \<open>What the retry loop throws: an error it caught, or \<^verbatim>\<open>lastError\<close> never assigned.\<close>

datatype thrown = Thrown js_error | ThrownUndefined

text \<open>\<^verbatim>\<open>Math.min(1000 * Math.pow(2, attempt - 1), 5000)\<close>.\<close>

definition backoff_delay :: "nat \<Rightarrow> nat" where
  "backoff_delay attempt = min (1000 * 2 ^ (attempt - 1)) 5000"

function retry_loop ::
  "env \<Rightarrow> api_settings \<Rightarrow> string \<Rightarrow> nat \<Rightarrow> string option \<Rightarrow> nat \<Rightarrow> js_error option \<Rightarrow> world
   \<Rightarrow> (thrown + jsval) \<times> world" where
  "retry_loop env s message maxRetries loadingId attempt lastError w =
     (if attempt \<le> maxRetries then
        (let w1 = w @ (if 1 < attempt
                       then with_id loadingId (\<lambda>i. [UpdateMessage i
                              (msg_retrying @ decimal attempt @ ''/'' @ decimal maxRetries @ '')'')])
                       else [])
         in case callApi env s message None w1 of
              (Inr v, w2) \<Rightarrow> (Inr v, w2)
            | (Inl error, w2) \<Rightarrow>
                if (js_includes (err_message error) ''Failed to fetch''
                    \<or> js_includes (err_message error) tag_network_failed)
                   \<and> attempt < maxRetries
                then
                  retry_loop env s message maxRetries loadingId (Suc attempt) (Some error)
                    (w2 @ with_id loadingId (\<lambda>i. [UpdateMessage i
                            (msg_connect_failed
                             @ decimal (nat \<lceil>real (backoff_delay attempt) / 1000\<rceil>)
                             @ msg_retry_after)])
                        @ [Sleep (real (backoff_delay attempt))])
                else (Inl (Thrown error), w2))
      else (Inl (case lastError of None \<Rightarrow> ThrownUndefined | Some e \<Rightarrow> Thrown e), w))"
  by pat_completeness auto
termination
  by (relation "measure (\<lambda>(env, s, message, maxRetries, loadingId, attempt, lastError, w).
        Suc maxRetries - attempt)") auto

declare retry_loop.simps [simp del]

definition callApiWithRetry ::
  "env \<Rightarrow> api_settings \<Rightarrow> string \<Rightarrow> nat \<Rightarrow> string option \<Rightarrow> world \<Rightarrow> (thrown + jsval) \<times> world" where
  "callApiWithRetry env s message maxRetries loadingId w =
     retry_loop env s message maxRetries loadingId 1 None w"

section \<open>Reading a trace\<close>

fun is_Sleep :: "event \<Rightarrow> bool" where
  "is_Sleep (Sleep d) = True"
| "is_Sleep e = False"

text \<open>
  Events that leave the network alone, and the timers too when no message id was given.
\<close>

definition page_only :: "string option \<Rightarrow> event list \<Rightarrow> bool" where
  "page_only messageId evs =
     (\<forall>e \<in> set evs. \<not> is_Fetch e \<and> (messageId = None \<longrightarrow> \<not> is_Sleep e))"


text \<open>The error \<^verbatim>\<open>callApi\<close> throws for a network failure of the k-th attempt (line 437).\<close>

definition network_error :: "env \<Rightarrow> api_settings \<Rightarrow> nat \<Rightarrow> js_error" where
  "network_error env s k =
     new_Error (msg_network_head @ performNetworkDiagnostics env s k @ msg_network_tail)"

text \<open>
  A transport outcome that \<^verbatim>\<open>callApi\<close> takes for a network failure: \<^verbatim>\<open>fetch\<close> rejects, not
  by the abort of the timer, with \<^verbatim>\<open>Failed to fetch\<close> in the message.
\<close>

definition network_failure :: "js_error + response \<Rightarrow> bool" where
  "network_failure out =
     (case out of
        Inl e \<Rightarrow> err_name e \<noteq> ''AbortError'' \<and> js_includes (err_message e) ''Failed to fetch''
      | Inr r \<Rightarrow> False)"


text \<open>
  For each call of \<^verbatim>\<open>fetch\<close> in a trace, in order, the waits since the call before it (or
  since the start); \<open>acc\<close> holds the waits seen since the last call.
\<close>

fun waits_before :: "event list \<Rightarrow> real list \<Rightarrow> real list list" where
  "waits_before [] acc = []"
| "waits_before (Fetch r # es) acc = acc # waits_before es []"
| "waits_before (Sleep d # es) acc = waits_before es (acc @ [d])"
| "waits_before (e # es) acc = waits_before es acc"

definition attempt_waits :: "world \<Rightarrow> real list list" where
  "attempt_waits w = waits_before w []"

text \<open>
  The waits before \<open>m\<close> attempts of the retry loop that start with attempt \<open>a\<close>, the
  first of them after the waits \<open>acc\<close>: each later attempt follows one wait, the backoff
  delay computed after the attempt before it.
\<close>

fun backoff_pattern :: "nat \<Rightarrow> nat \<Rightarrow> real list \<Rightarrow> real list list" where
  "backoff_pattern a 0 acc = []"
| "backoff_pattern a (Suc m) acc = acc # backoff_pattern (Suc a) m [real (backoff_delay a)]"

text \<open>The texts given to \<^verbatim>\<open>updateMessageWithTyping\<close> in a trace, and the waits, in order.\<close>

fun typing_updates :: "world \<Rightarrow> string list" where
  "typing_updates [] = []"
| "typing_updates (UpdateMessageWithTyping i t # es) = t # typing_updates es"
| "typing_updates (e # es) = typing_updates es"

fun sleeps :: "world \<Rightarrow> real list" where
  "sleeps [] = []"
| "sleeps (Sleep d # es) = d # sleeps es"
| "sleeps (e # es) = sleeps es"

text \<open>
  Following the spec's words, not the source: the tokens of a text split on whitespace
  (runs of space, tab and line breaks separate tokens); \<open>cur\<close> is the token being read.
\<close>

fun spec_tokens :: "string \<Rightarrow> string \<Rightarrow> string list" where
  "spec_tokens [] cur = (if cur = [] then [] else [cur])"
| "spec_tokens (c # cs) cur =
     (if c \<in> set [CHR 0x09, CHR 0x0A, CHR 0x0B, CHR 0x0C, CHR 0x0D, CHR 0x20]
      then (if cur = [] then spec_tokens cs [] else cur # spec_tokens cs [])
      else spec_tokens cs (cur @ [c]))"

text \<open>The steps of the playback of the words \<open>ws\<close> from index \<open>i\<close> on.\<close>

definition playback_steps :: "env \<Rightarrow> string \<Rightarrow> string list \<Rightarrow> nat \<Rightarrow> event list" where
  "playback_steps env messageId ws i =
     concat (map (\<lambda>n. [UpdateMessageWithTyping messageId (join '' '' (take (Suc n) ws)),
                        Sleep (random env n * 100 + 50)]) [i..<length ws])"

text \<open>Each text starts with the text before it, the first one with \<open>prev\<close>.\<close>

fun cumulative :: "string \<Rightarrow> string list \<Rightarrow> bool" where
  "cumulative prev [] = True"
| "cumulative prev (t # ts) = (startsWith t prev \<and> cumulative t ts)"

text \<open>
  The state of the decoder agrees with its reports: the reported texts are cumulative and
  the last of them is the text assembled so far.
\<close>

definition coherent :: "string \<times> world \<Rightarrow> bool" where
  "coherent st =
     (cumulative '''' (typing_updates (snd st)) \<and> last ('''' # typing_updates (snd st)) = fst st)"






section \<open>A platform for the concrete runs\<close>

text \<open>
  Settings and a platform instance for the runs evaluated below. Its tables agree with the
  platform's functions on the arguments those runs reach; the transport of \<open>sample_env\<close>
  is down, and other transports are put in its place by a record update.
\<close>

definition sample_settings :: api_settings where
  "sample_settings =
     \<lparr>apiUrl = ''https://api.example/chat'', apiKey = ''abc'', authType = ''Bearer''\<rparr>"

definition sample_json :: "(string \<times> json) list" where
  \<open>sample_json =
     [(''{"content":"Hel"}'', JObj [(''content'', JStr ''Hel'')]),
      (''{"content":"lo"}'', JObj [(''content'', JStr ''lo'')]),
      (''{"statusCode":200,"response":"ok"}'',
         JObj [(''statusCode'', JNum 200), (''response'', JStr ''ok'')]),
      (''{"error":"bad input"}'', JObj [(''error'', JStr ''bad input'')]),
      (''{"statusCode":200}'', JObj [(''statusCode'', JNum 200)]),
      (''{"response":"hi"}'', JObj [(''response'', JStr ''hi'')]),
      (''{"success":true,"reply":true}'',
         JObj [(''success'', JBool True), (''reply'', JBool True)])]\<close>

definition sample_env :: env where
  "sample_env =
     \<lparr>fetchOutcome = (\<lambda>k. Inl (JsError ''TypeError'' ''Failed to fetch'')),
      isoTime = (\<lambda>k. ''2024-01-01T00:00:00.000Z''),
      localeTime = (\<lambda>k. ''1/1/2024, 12:00:0'' @ decimal k @ '' AM''),
      parseUrl = (\<lambda>u. if u = ''https://api.example/chat''
                       then Some \<lparr>protocol = ''https:'', host = ''api.example'', port = ''''\<rparr>
                       else None),
      jsonParse = map_of sample_json,
      jsonStringify = (\<lambda>v. concat (map fst (filter (\<lambda>p. snd p = v) sample_json))),
      numToString = (\<lambda>x. if x = 200 then ''200'' else ''0''),
      typeError = (\<lambda>k. JsError ''TypeError''
                     (case k of
                        PropertyOfNull \<Rightarrow> ''Cannot read properties of null''
                      | NotAFunction \<Rightarrow> ''text.split is not a function''
                      | NotPrimitive \<Rightarrow> ''Cannot convert object to primitive value''
                      | NullBodyStatus \<Rightarrow> ''Response with null body status cannot have body'')),
      random = (\<lambda>i. 1 / 2),
      bodyChunks = (\<lambda>t. [t])\<rparr>"

text \<open>A transport that answers every call with the same response.\<close>

definition answering :: "response \<Rightarrow> env" where
  "answering r = sample_env\<lparr>fetchOutcome := (\<lambda>k. Inr r)\<rparr>"

text \<open>
  A gateway's answer for an upstream it could not reach: status 502, and as body the words
  of \<open>tag_network_failed\<close> (network connection failed).
\<close>

definition upstream_failure :: response where
  "upstream_failure =
     \<lparr>status = 502, statusText = ''Bad Gateway'', contentType = Some ''text/plain'',
      bodyText = Inr tag_network_failed\<rparr>"

text \<open>A plain error answer.\<close>

definition not_found :: response where
  "not_found =
     \<lparr>status = 404, statusText = ''Not Found'', contentType = Some ''text/plain'',
      bodyText = Inr ''no such route''\<rparr>"

text \<open>Event payloads and chunks of an event stream.\<close>

definition payload_hel :: string where
  \<open>payload_hel = ''{"content":"Hel"}''\<close>

definition payload_lo :: string where
  \<open>payload_lo = ''{"content":"lo"}''\<close>

definition chunk_hel :: string where
  "chunk_hel = ''data: '' @ payload_hel @ [newline, newline]"

definition chunk_lo :: string where
  "chunk_lo = ''data: '' @ payload_lo @ [newline, newline]"

definition chunk_done :: string where
  "chunk_done = ''data: [DONE]'' @ [newline, newline]"

definition chunk_hel_done :: string where
  "chunk_hel_done = ''data: '' @ payload_hel @ [newline, newline] @ ''data: [DONE]'' @ [newline, newline]"







text \<open>
  A transport without a connection in a browser whose \<^verbatim>\<open>fetch\<close> rejects with another
  message than \<^verbatim>\<open>Failed to fetch\<close>.
\<close>

definition offline_error :: js_error where
  "offline_error = JsError ''TypeError'' ''NetworkError when attempting to fetch resource.''"

definition offline_env :: env where
  "offline_env = sample_env\<lparr>fetchOutcome := (\<lambda>k. Inl offline_error)\<rparr>"

section \<open>The world only grows\<close>

lemma page_only_Nil [simp]: "page_only m []"
  by (simp add: page_only_def)

lemma page_only_Cons [simp]:
  "page_only m (e # es) = (\<not> is_Fetch e \<and> (m = None \<longrightarrow> \<not> is_Sleep e) \<and> page_only m es)"
  by (auto simp: page_only_def)

lemma page_only_append [simp]: "page_only m (xs @ ys) = (page_only m xs \<and> page_only m ys)"
  by (auto simp: page_only_def)

lemma page_only_with_id:
  "(\<And>i. \<forall>e \<in> set (f i). \<not> is_Fetch e \<and> \<not> is_Sleep e) \<Longrightarrow> page_only m (with_id m' f)"
  by (cases m') (auto simp: page_only_def)

lemma startsWith_append: "startsWith (t @ r) t"
  by (induction t) auto

lemma js_includes_append: "js_includes (t @ r) t"
  by (cases "t @ r") (auto simp: startsWith_append dest: sym)

lemma fetch_count_append [simp]: "fetch_count (w @ v) = fetch_count w + fetch_count v"
  by (simp add: fetch_count_def)

lemma fetch_count_page_only: "page_only m evs \<Longrightarrow> fetch_count evs = 0"
  by (induction evs) (auto simp: page_only_def fetch_count_def)

lemma typing_loop_ext:
  "\<exists>evs. typing_loop env i ws n cur w = w @ evs \<and> page_only (Some i) evs"
proof (induction ws arbitrary: n cur w)
  case Nil
  show ?case by simp
next
  case (Cons a ws)
  show ?case
    using Cons [of "Suc n" "cur @ (if 0 < n then '' '' else '''') @ a"
        "w @ [UpdateMessageWithTyping i (cur @ (if 0 < n then '' '' else '''') @ a),
              Sleep (random env n * 100 + 50)]"]
    by (auto simp: Let_def page_only_def)
qed

lemma simulateTypingEffect_ext:
  "\<exists>evs. simulateTypingEffect env i t w = w @ evs \<and> page_only (Some i) evs"
  using typing_loop_ext [of env i "split_on CHR '' '' t" 0 "''''" w]
  by (auto simp: simulateTypingEffect_def page_only_def)

lemma append_fragment_ext:
  "\<exists>evs. snd (append_fragment m frag st) = snd st @ evs \<and> page_only m evs"
  by (auto simp: append_fragment_def Let_def intro!: page_only_with_id)

lemma raw_payload_ext:
  "\<exists>evs. snd (raw_payload m d st) = snd st @ evs \<and> page_only m evs"
  using append_fragment_ext [of m d st] by (auto simp: raw_payload_def)

lemma consume_payload_ext:
  "\<exists>evs. snd (consume_payload env m d st) = snd st @ evs \<and> page_only m evs"
  using raw_payload_ext [of m d st] append_fragment_ext [of m _ st]
  by (auto simp: consume_payload_def split: option.splits)

lemma process_lines_ext:
  "\<exists>evs. snd (process_lines env m ls st) = snd st @ evs \<and> page_only m evs"
proof (induction ls arbitrary: st)
  case Nil
  show ?case by simp
next
  case (Cons l ls)
  obtain e1 where e1: "snd (consume_payload env m (drop 6 l) st) = snd st @ e1" "page_only m e1"
    using consume_payload_ext by blast
  obtain e2 where e2: "snd (process_lines env m ls (consume_payload env m (drop 6 l) st))
      = snd (consume_payload env m (drop 6 l) st) @ e2" "page_only m e2"
    using Cons by blast
  show ?case
    using Cons [of st] e1 e2 by (auto simp: Let_def)
qed

lemma read_loop_ext:
  "\<exists>evs. snd (read_loop env m cs buf st) = snd st @ evs \<and> page_only m evs"
proof (induction cs arbitrary: buf st)
  case Nil
  show ?case by simp
next
  case (Cons c cs)
  let ?ls = "split_on newline (buf @ c)"
  obtain e1 where e1: "snd (process_lines env m (butlast ?ls) st) = snd st @ e1" "page_only m e1"
    using process_lines_ext by blast
  obtain e2 where e2: "snd (read_loop env m cs (last ?ls) (process_lines env m (butlast ?ls) st))
      = snd (process_lines env m (butlast ?ls) st) @ e2" "page_only m e2"
    using Cons by blast
  show ?case using e1 e2 by (auto simp: Let_def)
qed

lemma handleStreamResponse_ext:
  "\<exists>evs. snd (handleStreamResponse env rd m w) = w @ evs \<and> page_only m evs"
proof (cases rd)
  case None
  then show ?thesis by (simp add: handleStreamResponse_def)
next
  case (Some r)
  let ?w0 = "w @ with_id m (\<lambda>i. [RemoveStreamingEffect i, UpdateMessage i ''''])"
  obtain e1 where e1: "snd (read_loop env m (chunks r) '''' ('''', ?w0)) = ?w0 @ e1" "page_only m e1"
    using read_loop_ext [of env m "chunks r" "''''" "('''', ?w0)"] by auto
  have p0: "page_only m (with_id m (\<lambda>i. [RemoveStreamingEffect i, UpdateMessage i '''']))"
    by (rule page_only_with_id) simp
  have p1: "\<And>t. page_only m (with_id m (\<lambda>i. [FinishTyping i t]))"
    by (rule page_only_with_id) simp
  have p2: "page_only m [ReleaseLock]" by (simp add: page_only_def)
  show ?thesis
    using Some e1 p0 p1 p2
    by (auto simp: handleStreamResponse_def Let_def split: option.splits)
qed

lemma reveal_ext:
  "\<exists>evs. snd (reveal env m c w) = w @ evs \<and> page_only m evs"
proof (cases m)
  case None
  then show ?thesis by (simp add: reveal_def)
next
  case (Some i)
  have p: "page_only (Some i) [RemoveStreamingEffect i, UpdateMessage i '''']"
    by (simp add: page_only_def)
  show ?thesis
  proof (cases "i = []")
    case True
    with Some show ?thesis by (simp add: reveal_def)
  next
    case False
    show ?thesis
    proof (cases c)
      case None
      with Some False p show ?thesis by (simp add: reveal_def)
    next
      case (Some v)
      note cv = this
      show ?thesis
      proof (cases v)
        case (JStr t)
        obtain e where "simulateTypingEffect env i t (w @ [RemoveStreamingEffect i, UpdateMessage i ''''])
            = (w @ [RemoveStreamingEffect i, UpdateMessage i '''']) @ e" "page_only (Some i) e"
          using simulateTypingEffect_ext by blast
        with \<open>m = Some i\<close> False cv JStr p show ?thesis by (simp add: reveal_def)
      qed (use \<open>m = Some i\<close> False cv p in \<open>simp_all add: reveal_def\<close>)
    qed
  qed
qed

lemma reveal_and_return_ext:
  "\<exists>evs. snd (reveal_and_return env m c r w) = w @ evs \<and> page_only m evs"
  using reveal_ext [of env m c w]
  by (auto simp: reveal_and_return_def split: prod.splits option.splits)

lemma json_response_ext:
  "\<exists>evs. snd (json_response env m d w) = w @ evs \<and> page_only m evs"
  using reveal_and_return_ext [of env m _ _ w]
  by (auto simp: json_response_def Let_def)

lemma snd_case_sum_pair:
  "snd (case p of (Inl e, w') \<Rightarrow> (Inl (f e), w') | (Inr t, w') \<Rightarrow> (Inr (g t), w')) = snd p"
  by (cases p) (auto split: sum.splits)

lemma handle_response_ext:
  "\<exists>evs. snd (handle_response env m r w) = w @ evs \<and> page_only m evs"
proof (cases "ok r")
  case False
  then show ?thesis by (simp add: handle_response_def)
next
  case True
  note okr = this
  show ?thesis
  proof (cases "bodyText r")
    case (Inl e)
    with okr show ?thesis by (simp add: handle_response_def)
  next
    case (Inr t)
    show ?thesis
      unfolding handle_response_def
      using okr Inr handleStreamResponse_ext reveal_and_return_ext json_response_ext
      by (simp add: snd_case_sum_pair split: option.splits)
  qed
qed

section \<open>One exchange: the transport is called once\<close>

lemma callApi_no_url:
  "apiUrl s = [] \<Longrightarrow> callApi env s message m w = (Inl (new_Error msg_no_url), w)"
  by (simp add: callApi_def)

lemma callApi_ext:
  assumes "apiUrl s \<noteq> []"
  shows "\<exists>evs. snd (callApi env s message m w)
           = w @ Fetch (build_request s message (isoTime env (fetch_count w))) # evs
         \<and> page_only m evs"
proof (cases "fetchOutcome env (fetch_count w)")
  case (Inl e)
  with assms show ?thesis by (simp add: callApi_def Let_def)
next
  case (Inr r)
  obtain evs where "snd (handle_response env m r
      (w @ [Fetch (build_request s message (isoTime env (fetch_count w)))]))
      = (w @ [Fetch (build_request s message (isoTime env (fetch_count w)))]) @ evs" "page_only m evs"
    using handle_response_ext by blast
  with assms Inr show ?thesis
    by (simp add: callApi_def Let_def snd_case_sum_pair [where g = "\<lambda>v. v"])
qed

lemma callApi_fetch_count:
  assumes "apiUrl s \<noteq> []"
  shows "fetch_count (snd (callApi env s message m w)) = Suc (fetch_count w)"
proof -
  obtain evs where "snd (callApi env s message m w)
           = w @ Fetch (build_request s message (isoTime env (fetch_count w))) # evs" "page_only m evs"
    using callApi_ext [OF assms] by blast
  then show ?thesis
    using fetch_count_page_only [of m evs] by (simp add: fetch_count_def)
qed

lemma callApi_rejected:
  "apiUrl s \<noteq> [] \<Longrightarrow> fetchOutcome env (fetch_count w) = Inl e \<Longrightarrow>
   callApi env s message m w
     = (Inl (classify_error env s (fetch_count w) e),
        w @ [Fetch (build_request s message (isoTime env (fetch_count w)))])"
  by (simp add: callApi_def Let_def)

lemma callApi_not_ok:
  "apiUrl s \<noteq> [] \<Longrightarrow> fetchOutcome env (fetch_count w) = Inr r \<Longrightarrow> \<not> ok r \<Longrightarrow>
   callApi env s message m w
     = (Inl (classify_error env s (fetch_count w) (new_Error (http_error_message r))),
        w @ [Fetch (build_request s message (isoTime env (fetch_count w)))])"
  by (simp add: callApi_def Let_def handle_response_def)

lemma network_head_tag: "js_includes (msg_network_head @ x) tag_network_failed"
proof -
  have "msg_network_head = tag_network_failed @ drop (length tag_network_failed) msg_network_head"
    by (simp add: msg_network_head_def tag_network_failed_def)
  then have "msg_network_head @ x
      = tag_network_failed @ (drop (length tag_network_failed) msg_network_head @ x)"
    by (metis append_assoc)
  then show ?thesis by (metis js_includes_append)
qed

lemma classify_network_failure:
  "network_failure (Inl e) \<Longrightarrow> classify_error env s k e = network_error env s k"
  by (simp add: network_failure_def classify_error_def network_error_def)

lemma no_url_not_retried:
  "\<not> js_includes msg_no_url ''Failed to fetch''" "\<not> js_includes msg_no_url tag_network_failed"
  by (simp_all add: msg_no_url_def tag_network_failed_def)

lemma timeout_not_retried:
  "\<not> js_includes msg_timeout ''Failed to fetch''" "\<not> js_includes msg_timeout tag_network_failed"
  by (simp_all add: msg_timeout_def tag_network_failed_def)

lemma cors_not_retried:
  "\<not> js_includes msg_cors ''Failed to fetch''" "\<not> js_includes msg_cors tag_network_failed"
  by (simp_all add: msg_cors_def tag_network_failed_def)

lemma request_config_not_retried:
  "\<not> js_includes msg_request_config ''Failed to fetch''"
  "\<not> js_includes msg_request_config tag_network_failed"
  by (simp_all add: msg_request_config_def tag_network_failed_def)

section \<open>The retry loop\<close>

lemma retry_loop_network:
  assumes url: "apiUrl s \<noteq> []"
    and net: "\<forall>k. network_failure (fetchOutcome env k)"
  shows "1 \<le> attempt \<Longrightarrow> attempt + d = n \<Longrightarrow>
     \<exists>w'. retry_loop env s message n loadingId attempt lastError w
            = (Inl (Thrown (network_error env s (fetch_count w + d))), w')
          \<and> fetch_count w' = fetch_count w + d + 1"
proof (induction d arbitrary: attempt lastError w)
  case 0
  let ?w1 = "w @ (if 1 < attempt
                 then with_id loadingId (\<lambda>i. [UpdateMessage i
                        (msg_retrying @ decimal attempt @ ''/'' @ decimal n @ '')'')])
                 else [])"
  have c1: "fetch_count ?w1 = fetch_count w"
    by (cases loadingId) (auto simp: fetch_count_def)
  obtain e where e: "fetchOutcome env (fetch_count ?w1) = Inl e" "network_failure (Inl e)"
    using net [rule_format, of "fetch_count ?w1"]
    by (cases "fetchOutcome env (fetch_count ?w1)") (auto simp: network_failure_def)
  have call: "callApi env s message None ?w1
      = (Inl (network_error env s (fetch_count w)),
         ?w1 @ [Fetch (build_request s message (isoTime env (fetch_count ?w1)))])"
    using callApi_rejected [OF url e(1)] classify_network_failure [OF e(2)] c1 by simp
  from 0 have "attempt = n" by simp
  then show ?case
    using call c1
    by (subst retry_loop.simps) (simp add: Let_def fetch_count_def)
next
  case (Suc d)
  let ?w1 = "w @ (if 1 < attempt
                 then with_id loadingId (\<lambda>i. [UpdateMessage i
                        (msg_retrying @ decimal attempt @ ''/'' @ decimal n @ '')'')])
                 else [])"
  have c1: "fetch_count ?w1 = fetch_count w"
    by (cases loadingId) (auto simp: fetch_count_def)
  obtain e where e: "fetchOutcome env (fetch_count ?w1) = Inl e" "network_failure (Inl e)"
    using net [rule_format, of "fetch_count ?w1"]
    by (cases "fetchOutcome env (fetch_count ?w1)") (auto simp: network_failure_def)
  let ?w2 = "?w1 @ [Fetch (build_request s message (isoTime env (fetch_count ?w1)))]"
  have call: "callApi env s message None ?w1 = (Inl (network_error env s (fetch_count w)), ?w2)"
    using callApi_rejected [OF url e(1)] classify_network_failure [OF e(2)] c1 by simp
  let ?w3 = "?w2 @ with_id loadingId (\<lambda>i. [UpdateMessage i
                      (msg_connect_failed
                       @ decimal (nat \<lceil>real (backoff_delay attempt) / 1000\<rceil>)
                       @ msg_retry_after)])
                 @ [Sleep (real (backoff_delay attempt))]"
  have c3: "fetch_count ?w3 = Suc (fetch_count w)"
    using c1 by (cases loadingId) (auto simp: fetch_count_def)
  from Suc.prems have lt: "attempt < n" "attempt \<le> n" by simp_all
  have tag: "js_includes (err_message (network_error env s (fetch_count w))) tag_network_failed"
    by (simp add: network_error_def new_Error_def network_head_tag)
  have step: "retry_loop env s message n loadingId attempt lastError w
      = retry_loop env s message n loadingId (Suc attempt)
          (Some (network_error env s (fetch_count w))) ?w3"
    using call lt tag
    by (subst retry_loop.simps) (simp add: Let_def)
  from Suc.prems have "1 \<le> Suc attempt" "Suc attempt + d = n" by simp_all
  from Suc.IH [OF this, of "Some (network_error env s (fetch_count w))" ?w3]
  show ?case
    unfolding step c3 by simp
qed


lemma retry_loop_first_error:
  assumes "callApi env s message None w = (Inl err, w')"
    and "\<not> js_includes (err_message err) ''Failed to fetch''"
    and "\<not> js_includes (err_message err) tag_network_failed"
    and "1 \<le> n"
  shows "callApiWithRetry env s message n loadingId w = (Inl (Thrown err), w')"
  unfolding callApiWithRetry_def
  using assms by (subst retry_loop.simps) (simp add: Let_def)

lemma sample_url: "apiUrl sample_settings \<noteq> []"
  by (simp add: sample_settings_def)

lemma retry_first_attempt_retried:
  assumes "callApi env s message None w = (Inl err, w')"
    and "js_includes (err_message err) ''Failed to fetch''
         \<or> js_includes (err_message err) tag_network_failed"
    and "1 < n"
  shows "callApiWithRetry env s message n None w
     = retry_loop env s message n None 2 (Some err) (w' @ [Sleep (real (backoff_delay 1))])"
  unfolding callApiWithRetry_def
  using assms by (subst retry_loop.simps) (simp add: Let_def numeral_2_eq_2)

section \<open>The waits between attempts\<close>

lemma waits_before_page_only:
  "page_only None evs \<Longrightarrow> waits_before (evs @ rest) acc = waits_before rest acc"
proof (induction evs arbitrary: acc)
  case Nil
  show ?case by simp
next
  case (Cons e evs)
  then show ?case by (cases e) simp_all
qed

lemma waits_before_length: "length (waits_before evs acc) = fetch_count evs"
  by (induction evs acc rule: waits_before.induct) (simp_all add: fetch_count_def)

lemma page_only_with_id_update:
  "page_only None (with_id m (\<lambda>i. [UpdateMessage i (t i)]))"
  by (rule page_only_with_id) simp

lemma retry_loop_waits:
  "\<exists>evs. snd (retry_loop env s message n loadingId a lastError w) = w @ evs
      \<and> (\<forall>acc. waits_before evs acc = backoff_pattern a (fetch_count evs) acc)
      \<and> fetch_count evs \<le> Suc n - a"
proof (induction "Suc n - a" arbitrary: a lastError w)
  case 0
  then have "\<not> a \<le> n" by simp
  then show ?case
    by (subst retry_loop.simps) (simp add: fetch_count_def)
next
  case (Suc d)
  then have le: "a \<le> n" by simp
  let ?u1 = "if 1 < a
                 then with_id loadingId (\<lambda>i. [UpdateMessage i
                        (msg_retrying @ decimal a @ ''/'' @ decimal n @ '')'')])
                 else []"
  let ?w1 = "w @ ?u1"
  have p1: "page_only None ?u1"
    by (simp add: page_only_with_id_update)
  show ?case
  proof (cases "apiUrl s = []")
    case True
    have "callApi env s message None ?w1 = (Inl (new_Error msg_no_url), ?w1)"
      using True by (rule callApi_no_url)
    then have "snd (retry_loop env s message n loadingId a lastError w) = w @ ?u1"
      using le no_url_not_retried
      by (subst retry_loop.simps) (simp add: Let_def new_Error_def)
    moreover have "\<forall>acc. waits_before ?u1 acc = backoff_pattern a (fetch_count ?u1) acc"
      using waits_before_page_only [OF p1, of "[]"] fetch_count_page_only [OF p1] by simp
    moreover have "fetch_count ?u1 \<le> Suc n - a"
      using fetch_count_page_only [OF p1] by simp
    ultimately show ?thesis by blast
  next
    case False
    obtain cevs where c: "snd (callApi env s message None ?w1)
           = ?w1 @ Fetch (build_request s message (isoTime env (fetch_count ?w1))) # cevs"
        "page_only None cevs"
      using callApi_ext [OF False] by blast
    let ?f = "Fetch (build_request s message (isoTime env (fetch_count ?w1)))"
    let ?w2 = "?w1 @ ?f # cevs"
    obtain res where res: "callApi env s message None ?w1 = (res, ?w2)"
      using c(1) by (cases "callApi env s message None ?w1") simp
    have stop: "\<forall>acc. waits_before (?u1 @ ?f # cevs) acc
        = backoff_pattern a (fetch_count (?u1 @ ?f # cevs)) acc"
      using waits_before_page_only [OF p1] waits_before_page_only [OF c(2), of "[]"]
        fetch_count_page_only [OF p1] fetch_count_page_only [OF c(2)]
      by (simp add: fetch_count_def)
    have one: "fetch_count (?u1 @ ?f # cevs) \<le> Suc n - a"
      using fetch_count_page_only [OF p1] fetch_count_page_only [OF c(2)] le
      by (simp add: fetch_count_def)
    show ?thesis
    proof (cases res)
      case (Inr v)
      then have "snd (retry_loop env s message n loadingId a lastError w) = w @ (?u1 @ ?f # cevs)"
        using le res by (subst retry_loop.simps) (simp add: Let_def)
      with stop one show ?thesis by blast
    next
      case (Inl err)
      show ?thesis
      proof (cases "(js_includes (err_message err) ''Failed to fetch''
                    \<or> js_includes (err_message err) tag_network_failed) \<and> a < n")
        case False
        then have "snd (retry_loop env s message n loadingId a lastError w) = w @ (?u1 @ ?f # cevs)"
          using le res Inl by (subst retry_loop.simps) (auto simp add: Let_def)
        with stop one show ?thesis by blast
      next
        case True
        let ?u3 = "with_id loadingId (\<lambda>i. [UpdateMessage i
                            (msg_connect_failed
                             @ decimal (nat \<lceil>real (backoff_delay a) / 1000\<rceil>)
                             @ msg_retry_after)])"
        let ?w3 = "?w2 @ ?u3 @ [Sleep (real (backoff_delay a))]"
        have p3: "page_only None ?u3" by (rule page_only_with_id_update)
        have step: "retry_loop env s message n loadingId a lastError w
            = retry_loop env s message n loadingId (Suc a) (Some err) ?w3"
          using le res Inl True by (subst retry_loop.simps) (simp add: Let_def)
        from Suc.hyps have "d = Suc n - Suc a" by simp
        from Suc.hyps(1) [OF this, of "Some err" ?w3]
        obtain evs where evs: "snd (retry_loop env s message n loadingId (Suc a) (Some err) ?w3)
            = ?w3 @ evs"
          "\<forall>acc. waits_before evs acc = backoff_pattern (Suc a) (fetch_count evs) acc"
          "fetch_count evs \<le> Suc n - Suc a"
          by blast
        let ?all = "?u1 @ ?f # cevs @ ?u3 @ [Sleep (real (backoff_delay a))] @ evs"
        have "snd (retry_loop env s message n loadingId a lastError w) = w @ ?all"
          unfolding step evs(1) by simp
        moreover have "\<forall>acc. waits_before ?all acc = backoff_pattern a (fetch_count ?all) acc"
        proof
          fix acc
          have "waits_before ?all acc
              = acc # waits_before (cevs @ ?u3 @ [Sleep (real (backoff_delay a))] @ evs) []"
            using waits_before_page_only [OF p1] by simp
          also have "\<dots> = acc # waits_before ([Sleep (real (backoff_delay a))] @ evs) []"
            using waits_before_page_only [OF c(2)] waits_before_page_only [OF p3] by simp
          also have "\<dots> = acc # backoff_pattern (Suc a) (fetch_count evs) [real (backoff_delay a)]"
            using evs(2) by simp
          also have "\<dots> = backoff_pattern a (fetch_count ?all) acc"
            using fetch_count_page_only [OF p1] fetch_count_page_only [OF c(2)]
              fetch_count_page_only [OF p3]
            by (simp add: fetch_count_def)
          finally show "waits_before ?all acc = backoff_pattern a (fetch_count ?all) acc" .
        qed
        moreover have "fetch_count ?all \<le> Suc n - a"
          using fetch_count_page_only [OF p1] fetch_count_page_only [OF c(2)]
            fetch_count_page_only [OF p3] evs(3) True
          by (auto simp add: fetch_count_def)
        ultimately show ?thesis by blast
      qed
    qed
  qed
qed

lemma backoff_pattern_nth:
  "Suc j < m \<Longrightarrow> backoff_pattern a m acc ! Suc j = [real (backoff_delay (a + j))]"
proof (induction m arbitrary: a acc j)
  case 0
  then show ?case by simp
next
  case (Suc m)
  show ?case
  proof (cases j)
    case 0
    with Suc.prems show ?thesis by (cases m) simp_all
  next
    case (Suc i)
    with Suc.prems Suc.IH [of i "Suc a" "[real (backoff_delay a)]"] show ?thesis by simp
  qed
qed

lemma backoff_delay_values:
  "backoff_delay 1 = 1000" "backoff_delay 2 = 2000" "backoff_delay 3 = 4000"
  "4 \<le> k \<Longrightarrow> backoff_delay k = 5000"
proof -
  show "backoff_delay 1 = 1000" "backoff_delay 2 = 2000" "backoff_delay 3 = 4000"
    by (simp_all add: backoff_delay_def eval_nat_numeral)
  assume "4 \<le> k"
  then have "3 \<le> k - 1" by simp
  then have "(2::nat) ^ 3 \<le> 2 ^ (k - 1)" by (intro power_increasing) simp_all
  then show "backoff_delay k = 5000" by (simp add: backoff_delay_def)
qed

section \<open>The trace of a playback\<close>

lemma join_snoc:
  "join sep (xs @ [x]) = join sep xs @ (if xs = [] then [] else sep) @ x"
  by (induction sep xs rule: join.induct) auto

lemma typing_loop_steps:
  "typing_loop env m rest (length done) (join '' '' done) w
     = w @ playback_steps env m (done @ rest) (length done)"
proof (induction rest arbitrary: "done" w)
  case Nil
  show ?case by (simp add: playback_steps_def)
next
  case (Cons word rest)
  have j: "join '' '' done @ (if 0 < length done then '' '' else '''') @ word
      = join '' '' (done @ [word])"
    by (simp add: join_snoc)
  have "length done < length (done @ word # rest)" by simp
  from upt_conv_Cons [OF this]
  have "[length done..<length (done @ word # rest)]
      = length done # [length (done @ [word])..<length ((done @ [word]) @ rest)]"
    by simp
  then have p: "playback_steps env m (done @ word # rest) (length done)
      = [UpdateMessageWithTyping m (join '' '' (done @ [word])),
         Sleep (random env (length done) * 100 + 50)]
        @ playback_steps env m ((done @ [word]) @ rest) (length (done @ [word]))"
    unfolding playback_steps_def by simp
  let ?w' = "w @ [UpdateMessageWithTyping m (join '' '' (done @ [word])),
              Sleep (random env (length done) * 100 + 50)]"
  have "typing_loop env m (word # rest) (length done) (join '' '' done) w
      = typing_loop env m rest (Suc (length done)) (join '' '' (done @ [word])) ?w'"
    by (simp only: typing_loop.simps Let_def j)
  also have "\<dots> = ?w' @ playback_steps env m ((done @ [word]) @ rest) (length (done @ [word]))"
    using Cons [of "done @ [word]" ?w'] by simp
  also have "\<dots> = w @ playback_steps env m (done @ word # rest) (length done)"
    unfolding p by simp
  finally show ?case .
qed

lemma join_split_on: "join [c] (split_on c t) = t"
proof (induction t)
  case Nil
  show ?case by simp
next
  case (Cons x t)
  show ?case
  proof (cases "x = c")
    case True
    then show ?thesis
      using Cons by (cases "split_on c t") simp_all
  next
    case False
    then show ?thesis
      using Cons by (cases "split_on c t"; cases "tl (split_on c t)") auto
  qed
qed

lemma split_on_not_Nil: "split_on c t \<noteq> []"
  by (induction t) (auto split: list.splits)

lemma typing_updates_append [simp]:
  "typing_updates (xs @ ys) = typing_updates xs @ typing_updates ys"
  by (induction xs rule: typing_updates.induct) simp_all

lemma sleeps_append [simp]: "sleeps (xs @ ys) = sleeps xs @ sleeps ys"
  by (induction xs rule: sleeps.induct) simp_all

lemma typing_updates_pairs:
  "typing_updates (concat (map (\<lambda>n. [UpdateMessageWithTyping m (f n), Sleep (g n)]) ns)) = map f ns"
  by (induction ns) simp_all

lemma sleeps_pairs:
  "sleeps (concat (map (\<lambda>n. [UpdateMessageWithTyping m (f n), Sleep (g n)]) ns)) = map g ns"
  by (induction ns) simp_all

lemma typing_updates_steps:
  "typing_updates (playback_steps env m ws i) = map (\<lambda>n. join '' '' (take (Suc n) ws)) [i..<length ws]"
  unfolding playback_steps_def by (rule typing_updates_pairs)

lemma sleeps_steps:
  "sleeps (playback_steps env m ws i) = map (\<lambda>n. random env n * 100 + 50) [i..<length ws]"
  unfolding playback_steps_def by (rule sleeps_pairs)

section \<open>The decoder reports what it has assembled\<close>

lemma cumulative_snoc:
  "cumulative prev (ts @ [t]) = (cumulative prev ts \<and> startsWith t (last (prev # ts)))"
  by (induction ts arbitrary: prev) auto

lemma coherent_append_fragment:
  assumes "i \<noteq> []" "coherent st"
  shows "coherent (append_fragment (Some i) frag st)"
  using assms
  by (simp add: coherent_def append_fragment_def Let_def cumulative_snoc startsWith_append)

lemma coherent_raw_payload:
  "i \<noteq> [] \<Longrightarrow> coherent st \<Longrightarrow> coherent (raw_payload (Some i) d st)"
  by (simp add: raw_payload_def coherent_append_fragment)

lemma coherent_consume_payload:
  "i \<noteq> [] \<Longrightarrow> coherent st \<Longrightarrow> coherent (consume_payload env (Some i) d st)"
  by (simp add: consume_payload_def coherent_append_fragment coherent_raw_payload
      split: option.splits)

lemma coherent_process_lines:
  "i \<noteq> [] \<Longrightarrow> coherent st \<Longrightarrow> coherent (process_lines env (Some i) ls st)"
  by (induction ls arbitrary: st) (simp_all add: Let_def coherent_consume_payload)

lemma coherent_read_loop:
  "i \<noteq> [] \<Longrightarrow> coherent st \<Longrightarrow> coherent (read_loop env (Some i) cs buf st)"
  by (induction cs arbitrary: buf st) (simp_all add: Let_def coherent_process_lines)

lemma stream_result:
  assumes "i \<noteq> []"
  shows "\<exists>full w1. read_loop env (Some i) (chunks rd) ''''
                    ('''', [RemoveStreamingEffect i, UpdateMessage i '''']) = (full, w1)
     \<and> coherent (full, w1)
     \<and> snd (handleStreamResponse env (Some rd) (Some i) [])
         = w1 @ [ReleaseLock] @ (if full \<noteq> [] then [FinishTyping i full] else [])
     \<and> (read_failure rd = None \<longrightarrow>
          fst (handleStreamResponse env (Some rd) (Some i) [])
            = Inr (if full = [] then msg_empty_stream else full))"
proof -
  let ?st = "read_loop env (Some i) (chunks rd) '''' ('''', [RemoveStreamingEffect i, UpdateMessage i ''''])"
  have "coherent ('''', [RemoveStreamingEffect i, UpdateMessage i ''''])"
    by (simp add: coherent_def)
  then have "coherent ?st" using assms by (rule coherent_read_loop [rotated])
  then show ?thesis
    using assms
    by (cases ?st) (simp add: handleStreamResponse_def Let_def split: option.splits)
qed

lemma blank_Nil: "blank []"
  by (simp add: blank.simps)

lemma not_blank_data: "\<not> blank (CHR ''d'' # s)"
  by (subst blank.simps) (simp add: ws_width_def js_whitespace_def)

lemma consume_hel:
  assumes "i \<noteq> []" "jsonParse env payload_hel = Some (JObj [(''content'', JStr ''Hel'')])"
  shows "consume_payload env (Some i) payload_hel (full, w)
      = (full @ ''Hel'', w @ [UpdateMessageWithTyping i (full @ ''Hel'')])"
  using assms
  by (simp add: consume_payload_def extract_content_def js_or_def append_fragment_def Let_def)

lemma consume_lo:
  assumes "i \<noteq> []" "jsonParse env payload_lo = Some (JObj [(''content'', JStr ''lo'')])"
  shows "consume_payload env (Some i) payload_lo (full, w)
      = (full @ ''lo'', w @ [UpdateMessageWithTyping i (full @ ''lo'')])"
  using assms
  by (simp add: consume_payload_def extract_content_def js_or_def append_fragment_def Let_def)

lemma lines_of_chunks:
  "split_on newline chunk_hel = [''data: '' @ payload_hel, [], []]"
  "split_on newline chunk_lo = [''data: '' @ payload_lo, [], []]"
  "split_on newline chunk_done = [''data: [DONE]'', [], []]"
  by (simp_all add: chunk_hel_def chunk_lo_def chunk_done_def payload_hel_def payload_lo_def
      newline_def)

lemma payloads_not_done: "payload_hel \<noteq> ''[DONE]''" "payload_lo \<noteq> ''[DONE]''"
  by (simp_all add: payload_hel_def payload_lo_def)

lemma read_hello:
  assumes "i \<noteq> []"
    and "jsonParse env payload_hel = Some (JObj [(''content'', JStr ''Hel'')])"
    and "jsonParse env payload_lo = Some (JObj [(''content'', JStr ''lo'')])"
  shows "read_loop env (Some i) [chunk_hel, chunk_lo, chunk_done] '''' ('''', w)
           = (''Hello'', w @ [UpdateMessageWithTyping i ''Hel'', UpdateMessageWithTyping i ''Hello''])"
  by (simp add: lines_of_chunks Let_def blank_Nil not_blank_data payloads_not_done
      consume_hel [OF assms(1,2)] consume_lo [OF assms(1,3)])

section \<open>JSON answers\<close>








lemma classify_plain_error:
  "\<not> js_includes m ''Failed to fetch'' \<Longrightarrow> \<not> js_includes m ''CORS'' \<Longrightarrow>
   \<not> js_includes m ''TypeError'' \<Longrightarrow> classify_error env s k (new_Error m) = new_Error m"
  by (simp add: classify_error_def new_Error_def)




section \<open>Classification of a JSON answer\<close>




section \<open>Retrying network failures\<close>

text \<open>
  C3, at a failing input. The retry loop means to retry a network failure (the comment of
  line 288) and knows one by the words \<^verbatim>\<open>Failed to fetch\<close>, or the words of
  \<open>tag_network_failed\<close>, in the message of the error. A browser whose \<^verbatim>\<open>fetch\<close> rejects a
  lost connection with the message \<^verbatim>\<open>NetworkError when attempting to fetch resource.\<close>
  gets no retry: with three attempts allowed and every call rejected so, the transport
  is invoked once, nothing is waited for, and the rejection is thrown as it came.
\<close>

theorem network_failure_not_retried:
  "callApiWithRetry offline_env sample_settings ''hello'' 3 None []
     = (Inl (Thrown offline_error),
        [Fetch (build_request sample_settings ''hello'' (isoTime offline_env 0))])
   \<and> fetch_count (snd (callApiWithRetry offline_env sample_settings ''hello'' 3 None [])) = 1"
proof -
  have out: "fetchOutcome offline_env (fetch_count []) = Inl offline_error"
    by (simp add: offline_env_def)
  have same: "classify_error offline_env sample_settings (fetch_count []) offline_error
      = offline_error"
    by (simp add: classify_error_def offline_error_def)
  have call: "callApi offline_env sample_settings ''hello'' None []
      = (Inl offline_error,
         [] @ [Fetch (build_request sample_settings ''hello''
                        (isoTime offline_env (fetch_count [])))])"
    using callApi_rejected [OF sample_url out] same by simp
  have "\<not> js_includes (err_message offline_error) ''Failed to fetch''"
    "\<not> js_includes (err_message offline_error) tag_network_failed"
    by (simp_all add: offline_error_def tag_network_failed_def)
  from retry_loop_first_error [OF call this, of 3 None]
  show ?thesis by (simp add: fetch_count_def)
qed

text \<open>
  What does hold: with an endpoint configured and \<open>n \<ge> 1\<close> attempts allowed, if every
  call of \<^verbatim>\<open>fetch\<close> is rejected with \<^verbatim>\<open>Failed to fetch\<close> in the message and not by the
  abort of the timer, the transport is invoked exactly \<open>n\<close> times and the error thrown is
  the network error \<^verbatim>\<open>callApi\<close> built at the n-th attempt, with that attempt's diagnostics.
\<close>

lemma retry_network_failures:
  assumes "apiUrl s \<noteq> []" "1 \<le> n" "\<forall>k. network_failure (fetchOutcome env k)"
  shows "\<exists>w'. callApiWithRetry env s message n loadingId w
            = (Inl (Thrown (network_error env s (fetch_count w + n - 1))), w')
          \<and> fetch_count w' = fetch_count w + n
          \<and> js_includes (err_message (network_error env s (fetch_count w + n - 1))) tag_network_failed"
proof -
  have "1 + (n - 1) = n" using assms(2) by simp
  from retry_loop_network [OF assms(1) assms(3) _ this, of message loadingId None w]
  obtain w' where "retry_loop env s message n loadingId 1 None w
            = (Inl (Thrown (network_error env s (fetch_count w + (n - 1)))), w')"
     "fetch_count w' = fetch_count w + (n - 1) + 1"
    by auto
  then show ?thesis
    using assms(2) by (simp add: callApiWithRetry_def network_error_def new_Error_def network_head_tag)
qed

lemma retry_network_failures_sample:
  "\<exists>w'. callApiWithRetry sample_env sample_settings ''hello'' 3 (Some ''m1'') []
            = (Inl (Thrown (network_error sample_env sample_settings 2)), w')
          \<and> fetch_count w' = 3"
proof -
  have "\<forall>k. network_failure (fetchOutcome sample_env k)"
    by (simp add: sample_env_def network_failure_def)
  from retry_network_failures [OF sample_url _ this, of 3 "''hello''" "Some ''m1''" "[]"]
  show ?thesis by (auto simp add: fetch_count_def)
qed

section \<open>Errors that are not retried\<close>

text \<open>
  C4, at a failing input. The retry loop means to retry network failures only and to
  throw every other error at once (the comments of lines 288 and 300), and it knows a
  network failure by words in the message of the error. The message of an HTTP error holds
  the status text and the body the server sent. Here a 502 whose body has the words of
  \<open>tag_network_failed\<close> is thrown by \<^verbatim>\<open>callApi\<close> as the HTTP error it is, the retry loop
  finds those words in its message, and with two attempts allowed the transport is
  invoked twice.
\<close>

theorem http_error_retried:
  "\<not> ok upstream_failure
   \<and> fst (callApi (answering upstream_failure) sample_settings ''hello'' None [])
       = Inl (new_Error (http_error_message upstream_failure))
   \<and> fetch_count (snd (callApiWithRetry (answering upstream_failure) sample_settings
                          ''hello'' 2 None [])) = 2"
proof -
  let ?env = "answering upstream_failure"
  let ?err = "new_Error (http_error_message upstream_failure)"
  have nok: "\<not> ok upstream_failure"
    by (simp add: ok_def upstream_failure_def)
  have out: "\<And>k. fetchOutcome ?env k = Inr upstream_failure"
    by (simp add: answering_def)
  have m: "http_error_message upstream_failure
      = msg_http_prefix @ ''502): Bad Gateway. '' @ tag_network_failed"
    by (simp add: http_error_message_def upstream_failure_def decimal.simps)
  have tag: "js_includes (err_message ?err) tag_network_failed"
    unfolding m by (simp add: new_Error_def msg_http_prefix_def tag_network_failed_def)
  have plain: "\<not> js_includes (http_error_message upstream_failure) ''Failed to fetch''"
    "\<not> js_includes (http_error_message upstream_failure) ''CORS''"
    "\<not> js_includes (http_error_message upstream_failure) ''TypeError''"
    unfolding m by (simp_all add: msg_http_prefix_def tag_network_failed_def)
  have call: "\<And>w. callApi ?env sample_settings ''hello'' None w
      = (Inl ?err,
         w @ [Fetch (build_request sample_settings ''hello'' (isoTime ?env (fetch_count w)))])"
    using callApi_not_ok [OF sample_url out nok] classify_plain_error [OF plain]
    by simp
  have "callApiWithRetry ?env sample_settings ''hello'' 2 None []
     = retry_loop ?env sample_settings ''hello'' 2 None 2 (Some ?err)
         ([Fetch (build_request sample_settings ''hello'' (isoTime ?env 0))]
           @ [Sleep (real (backoff_delay 1))])"
    using retry_first_attempt_retried [OF call [of "[]"], of 2] tag
    by (simp add: fetch_count_def)
  also have "fetch_count (snd \<dots>) = 2"
    by (subst retry_loop.simps) (simp add: call Let_def fetch_count_def)
  finally show ?thesis using nok call [of "[]"] by simp
qed

text \<open>
  What does hold, with an endpoint configured and at least one attempt allowed: a call
  aborted by the timer is thrown as the timeout error after one transport invocation; an
  answer outside 200-299 whose error message holds neither \<^verbatim>\<open>Failed to fetch\<close> nor the
  words of \<open>tag_network_failed\<close> is thrown after one transport invocation.
\<close>

lemma no_retry_on_http_or_timeout:
  assumes "apiUrl s \<noteq> []" and "1 \<le> n"
  shows "(\<forall>e. fetchOutcome env (fetch_count w) = Inl e \<and> err_name e = ''AbortError'' \<longrightarrow>
            callApiWithRetry env s message n loadingId w
              = (Inl (Thrown (new_Error msg_timeout)),
                 w @ [Fetch (build_request s message (isoTime env (fetch_count w)))]))
     \<and> (\<forall>r. fetchOutcome env (fetch_count w) = Inr r \<and> \<not> ok r
             \<and> \<not> js_includes (http_error_message r) ''Failed to fetch''
             \<and> \<not> js_includes (http_error_message r) tag_network_failed \<longrightarrow>
            callApiWithRetry env s message n loadingId w
              = (Inl (Thrown
                   (if js_includes (http_error_message r) ''CORS'' then new_Error msg_cors
                    else if js_includes (http_error_message r) ''TypeError''
                      then new_Error msg_request_config
                    else new_Error (http_error_message r))),
                 w @ [Fetch (build_request s message (isoTime env (fetch_count w)))]))"
proof (intro conjI allI impI)
  fix e
  assume a: "fetchOutcome env (fetch_count w) = Inl e \<and> err_name e = ''AbortError''"
  then have "callApi env s message None w
      = (Inl (new_Error msg_timeout),
         w @ [Fetch (build_request s message (isoTime env (fetch_count w)))])"
    using callApi_rejected [OF assms(1), of env w e] by (simp add: classify_error_def)
  from retry_loop_first_error [OF this _ _ assms(2)] timeout_not_retried
  show "callApiWithRetry env s message n loadingId w
              = (Inl (Thrown (new_Error msg_timeout)),
                 w @ [Fetch (build_request s message (isoTime env (fetch_count w)))])"
    by (simp add: new_Error_def)
next
  fix r
  let ?err = "if js_includes (http_error_message r) ''CORS'' then new_Error msg_cors
                    else if js_includes (http_error_message r) ''TypeError''
                      then new_Error msg_request_config
                    else new_Error (http_error_message r)"
  assume a: "fetchOutcome env (fetch_count w) = Inr r \<and> \<not> ok r
             \<and> \<not> js_includes (http_error_message r) ''Failed to fetch''
             \<and> \<not> js_includes (http_error_message r) tag_network_failed"
  then have "callApi env s message None w
      = (Inl ?err, w @ [Fetch (build_request s message (isoTime env (fetch_count w)))])"
    using callApi_not_ok [OF assms(1), of env w r]
    by (simp add: classify_error_def new_Error_def)
  moreover have "\<not> js_includes (err_message ?err) ''Failed to fetch''"
    "\<not> js_includes (err_message ?err) tag_network_failed"
    using a cors_not_retried request_config_not_retried by (simp_all add: new_Error_def)
  ultimately show "callApiWithRetry env s message n loadingId w
      = (Inl (Thrown ?err), w @ [Fetch (build_request s message (isoTime env (fetch_count w)))])"
    using retry_loop_first_error [OF _ _ _ assms(2)] by blast
qed

lemma no_retry_on_http_or_timeout_sample:
  "callApiWithRetry (answering not_found) sample_settings ''hello'' 3 (Some ''m1'') []
     = (Inl (Thrown (new_Error (http_error_message not_found))),
        [Fetch (build_request sample_settings ''hello'' (isoTime (answering not_found) 0))])
   \<and> callApiWithRetry
        (sample_env\<lparr>fetchOutcome := (\<lambda>k. Inl (JsError ''AbortError'' ''The user aborted a request.''))\<rparr>)
        sample_settings ''hello'' 3 (Some ''m1'') []
     = (Inl (Thrown (new_Error msg_timeout)),
        [Fetch (build_request sample_settings ''hello'' (isoTime sample_env 0))])"
proof -
  have m: "http_error_message not_found = msg_http_prefix @ ''404): Not Found. no such route''"
    by (simp add: http_error_message_def not_found_def decimal.simps)
  have i: "\<not> js_includes (http_error_message not_found) ''Failed to fetch''"
    "\<not> js_includes (http_error_message not_found) tag_network_failed"
    "\<not> js_includes (http_error_message not_found) ''CORS''"
    "\<not> js_includes (http_error_message not_found) ''TypeError''"
    unfolding m by (simp_all add: msg_http_prefix_def tag_network_failed_def)
  have k: "\<not> ok not_found" by (simp add: ok_def not_found_def)
  show ?thesis
    using no_retry_on_http_or_timeout [OF sample_url, of 3 "answering not_found" "[]" "''hello''"
        "Some ''m1''"]
      no_retry_on_http_or_timeout [OF sample_url, of 3
        "sample_env\<lparr>fetchOutcome := (\<lambda>k. Inl (JsError ''AbortError'' ''The user aborted a request.''))\<rparr>"
        "[]" "''hello''" "Some ''m1''"]
      i k
    by (simp add: answering_def fetch_count_def sample_env_def)
qed

section \<open>Backoff delays\<close>

text \<open>
  C5. In every run of the retry controller, for every attempt number \<open>k \<ge> 2\<close> that takes
  place, the wait between attempt \<open>k - 1\<close> and attempt \<open>k\<close> is one wait of exactly
  \<open>min (1000 * 2^(k-2)) 5000\<close> milliseconds: 1000 before attempt 2, 2000 before attempt 3,
  4000 before attempt 4, and 5000 before attempt 5 and every later attempt. An attempt
  that takes place has a number of at most \<^verbatim>\<open>maxRetries\<close>.
\<close>

theorem backoff_delays:
  assumes "2 \<le> k"
    and "k \<le> fetch_count (snd (callApiWithRetry env s message n loadingId []))"
  shows "attempt_waits (snd (callApiWithRetry env s message n loadingId [])) ! (k - 1)
           = [real (min (1000 * 2 ^ (k - 2)) 5000)]
     \<and> min (1000 * 2 ^ (k - 2)) 5000
           = (if k = 2 then 1000 else if k = 3 then 2000 else if k = 4 then 4000 else (5000::nat))
     \<and> k \<le> n"
proof -
  let ?w = "snd (callApiWithRetry env s message n loadingId [])"
  obtain evs where evs: "?w = [] @ evs"
      "\<forall>acc. waits_before evs acc = backoff_pattern 1 (fetch_count evs) acc"
      "fetch_count evs \<le> Suc n - 1"
    using retry_loop_waits [of env s message n loadingId 1 None "[]"]
    unfolding callApiWithRetry_def by blast
  obtain j where j: "k = Suc (Suc j)"
    using assms(1) by (metis Suc_le_D numeral_2_eq_2 Suc_le_mono)
  have "Suc j < fetch_count evs" using assms(2) evs(1) j by simp
  from backoff_pattern_nth [OF this, of 1 "[]"]
  have "attempt_waits ?w ! (k - 1) = [real (backoff_delay (k - 1))]"
    using evs j by (simp add: attempt_waits_def)
  moreover have "backoff_delay (k - 1) = min (1000 * 2 ^ (k - 2)) 5000"
    using j by (simp add: backoff_delay_def)
  moreover have "backoff_delay (k - 1)
      = (if k = 2 then 1000 else if k = 3 then 2000 else if k = 4 then 4000 else (5000::nat))"
    using backoff_delay_values(1-3) backoff_delay_values(4) [of "k - 1"] j
    by (auto simp: eval_nat_numeral)
  moreover have "k \<le> n" using assms(2) evs(1,3) by simp
  ultimately show ?thesis by simp
qed

theorem backoff_delays_witness:
  "attempt_waits (snd (callApiWithRetry sample_env sample_settings ''hello'' 5 (Some ''m1'') []))
     = [[], [1000], [2000], [4000], [5000]]"
proof -
  let ?w = "snd (callApiWithRetry sample_env sample_settings ''hello'' 5 (Some ''m1'') [])"
  have "\<forall>k. network_failure (fetchOutcome sample_env k)"
    by (simp add: sample_env_def network_failure_def)
  from retry_loop_network [OF sample_url this, where attempt = 1 and d = 4 and n = 5
      and message = "''hello''" and loadingId = "Some ''m1''" and lastError = None and w = "[]"]
  have fc: "fetch_count ?w = 5"
    by (auto simp: callApiWithRetry_def fetch_count_def)
  then have len: "length (attempt_waits ?w) = 5"
    by (simp add: attempt_waits_def waits_before_length)
  obtain evs where evs: "?w = [] @ evs"
      "\<forall>acc. waits_before evs acc = backoff_pattern 1 (fetch_count evs) acc"
    using retry_loop_waits [of sample_env sample_settings "''hello''" 5 "Some ''m1''" 1 None "[]"]
    unfolding callApiWithRetry_def by blast
  have first: "attempt_waits ?w ! 0 = []"
    using evs fc by (simp add: attempt_waits_def eval_nat_numeral)
  have "attempt_waits ?w ! 1 = [1000]" "attempt_waits ?w ! 2 = [2000]"
    "attempt_waits ?w ! 3 = [4000]" "attempt_waits ?w ! 4 = [5000]"
    using backoff_delays [where k = 2 and env = sample_env and s = sample_settings
        and message = "''hello''" and n = 5 and loadingId = "Some ''m1''"]
      backoff_delays [where k = 3 and env = sample_env and s = sample_settings
        and message = "''hello''" and n = 5 and loadingId = "Some ''m1''"]
      backoff_delays [where k = 4 and env = sample_env and s = sample_settings
        and message = "''hello''" and n = 5 and loadingId = "Some ''m1''"]
      backoff_delays [where k = 5 and env = sample_env and s = sample_settings
        and message = "''hello''" and n = 5 and loadingId = "Some ''m1''"]
      fc
    by simp_all
  with first len show ?thesis
    by (intro nth_equalityI) (auto simp: less_Suc_eq eval_nat_numeral)
qed

section \<open>No endpoint configured\<close>

text \<open>
  C6. With an empty endpoint URL, whatever the message, the authentication mode and the
  credential, an exchange throws the configuration error and the world is left as it
  was: the transport is not invoked, neither by \<^verbatim>\<open>callApi\<close> nor through the retry loop.
\<close>

theorem empty_url_config_error:
  assumes "apiUrl s = []"
  shows "callApi env s message messageId w = (Inl (new_Error msg_no_url), w)
     \<and> (1 \<le> n \<longrightarrow> callApiWithRetry env s message n loadingId w
                     = (Inl (Thrown (new_Error msg_no_url)), w))
     \<and> fetch_count (snd (callApi env s message messageId w)) = fetch_count w
     \<and> fetch_count (snd (callApiWithRetry env s message n loadingId w)) = fetch_count w"
proof -
  have c: "\<And>m. callApi env s message m w = (Inl (new_Error msg_no_url), w)"
    using assms by (rule callApi_no_url)
  have r: "1 \<le> n \<Longrightarrow> callApiWithRetry env s message n loadingId w
                     = (Inl (Thrown (new_Error msg_no_url)), w)"
    using retry_loop_first_error [OF c] no_url_not_retried by (simp add: new_Error_def)
  have z: "n = 0 \<Longrightarrow> snd (callApiWithRetry env s message n loadingId w) = w"
    unfolding callApiWithRetry_def by (subst retry_loop.simps) simp
  have "snd (callApiWithRetry env s message n loadingId w) = w"
    using r z by (cases n) simp_all
  then show ?thesis using c r by simp
qed

theorem empty_url_config_error_witness:
  "callApi sample_env (sample_settings\<lparr>apiUrl := ''''\<rparr>) ''hello'' (Some ''m1'') []
     = (Inl (new_Error msg_no_url), [])
   \<and> callApiWithRetry sample_env (sample_settings\<lparr>apiUrl := ''''\<rparr>) ''hello'' 3 (Some ''m1'') []
     = (Inl (Thrown (new_Error msg_no_url)), [])"
  using empty_url_config_error [of "sample_settings\<lparr>apiUrl := ''''\<rparr>" sample_env "''hello''"
      "Some ''m1''" "[]" 3 "Some ''m1''"]
  by simp

section \<open>Authentication headers\<close>

text \<open>
  C7. The headers of the built request: with \<^verbatim>\<open>Bearer\<close> and a credential,
  \<^verbatim>\<open>Authorization\<close> is \<^verbatim>\<open>Bearer\<close>, a space and the credential; with \<^verbatim>\<open>ApiKey\<close> and a
  credential, \<^verbatim>\<open>X-API-Key\<close> is the credential; with \<^verbatim>\<open>None\<close>, or with an empty
  credential, neither header is set. These are the headers of the request, and with an
  endpoint configured the request is handed to the transport in every case, the empty
  credential included.
\<close>

theorem auth_header_rules:
  "(authType s = ''Bearer'' \<and> apiKey s \<noteq> [] \<longrightarrow>
      auth_headers s ''Authorization'' = Some (''Bearer '' @ apiKey s)
      \<and> auth_headers s ''X-API-Key'' = None)
   \<and> (authType s = ''ApiKey'' \<and> apiKey s \<noteq> [] \<longrightarrow>
      auth_headers s ''X-API-Key'' = Some (apiKey s)
      \<and> auth_headers s ''Authorization'' = None)
   \<and> (authType s = ''None'' \<or> apiKey s = [] \<longrightarrow>
      auth_headers s ''Authorization'' = None \<and> auth_headers s ''X-API-Key'' = None)
   \<and> req_headers (build_request s message now) = auth_headers s
   \<and> (apiUrl s \<noteq> [] \<longrightarrow>
      (\<exists>evs. snd (callApi env s message messageId w)
          = w @ Fetch (build_request s message (isoTime env (fetch_count w))) # evs))"
proof -
  have "apiUrl s \<noteq> [] \<Longrightarrow> \<exists>evs. snd (callApi env s message messageId w)
          = w @ Fetch (build_request s message (isoTime env (fetch_count w))) # evs"
    using callApi_ext [of s env message messageId w] by blast
  then show ?thesis
    by (auto simp: auth_headers_def build_request_def Let_def)
qed

theorem auth_header_rules_witness:
  "auth_headers sample_settings ''Authorization'' = Some ''Bearer abc''
   \<and> auth_headers (sample_settings\<lparr>authType := ''ApiKey''\<rparr>) ''X-API-Key'' = Some ''abc''
   \<and> auth_headers (sample_settings\<lparr>authType := ''None''\<rparr>) ''Authorization'' = None
   \<and> auth_headers (sample_settings\<lparr>authType := ''None''\<rparr>) ''X-API-Key'' = None
   \<and> auth_headers (sample_settings\<lparr>apiKey := ''''\<rparr>) ''Authorization'' = None
   \<and> (\<exists>evs. snd (callApi sample_env (sample_settings\<lparr>apiKey := ''''\<rparr>) ''hello'' None [])
        = Fetch (build_request (sample_settings\<lparr>apiKey := ''''\<rparr>) ''hello''
                   (isoTime sample_env 0)) # evs)"
  using auth_header_rules [of sample_settings]
    auth_header_rules [of "sample_settings\<lparr>authType := ''ApiKey''\<rparr>"]
    auth_header_rules [of "sample_settings\<lparr>authType := ''None''\<rparr>"]
    auth_header_rules [of "sample_settings\<lparr>apiKey := ''''\<rparr>" "''hello''" _ sample_env None "[]"]
  by (simp add: sample_settings_def fetch_count_def)

section \<open>Stream decoding\<close>

text \<open>
  C8. Whatever chunks the body arrives in, every fragment report of the decoder carries
  the whole text assembled so far: each reported text starts with the one reported before
  it, and the text the decoder returns is the last one reported (or the sentinel for an
  empty response when that text is empty). In particular the three chunks with the
  payloads \<^verbatim>\<open>{"content":"Hel"}\<close>, \<^verbatim>\<open>{"content":"lo"}\<close> and \<^verbatim>\<open>[DONE]\<close> give exactly the
  reports \<^verbatim>\<open>Hel\<close> and \<^verbatim>\<open>Hello\<close>, in that order, and the returned text \<^verbatim>\<open>Hello\<close>.
\<close>

theorem stream_callbacks_cumulative:
  assumes "i \<noteq> []"
  shows "cumulative '''' (typing_updates (snd (handleStreamResponse env (Some rd) (Some i) [])))
     \<and> (read_failure rd = None \<longrightarrow>
          fst (handleStreamResponse env (Some rd) (Some i) [])
            = Inr (if last ('''' # typing_updates (snd (handleStreamResponse env (Some rd) (Some i) []))) = []
                   then msg_empty_stream
                   else last ('''' # typing_updates (snd (handleStreamResponse env (Some rd) (Some i) [])))))
     \<and> (jsonParse env payload_hel = Some (JObj [(''content'', JStr ''Hel'')])
          \<and> jsonParse env payload_lo = Some (JObj [(''content'', JStr ''lo'')]) \<longrightarrow>
          handleStreamResponse env
              (Some \<lparr>chunks = [chunk_hel, chunk_lo, chunk_done], read_failure = None\<rparr>) (Some i) []
            = (Inr ''Hello'',
               [RemoveStreamingEffect i, UpdateMessage i '''',
                UpdateMessageWithTyping i ''Hel'', UpdateMessageWithTyping i ''Hello'',
                ReleaseLock, FinishTyping i ''Hello'']))"
proof -
  obtain full w1 where r: "coherent (full, w1)"
      "snd (handleStreamResponse env (Some rd) (Some i) [])
         = w1 @ [ReleaseLock] @ (if full \<noteq> [] then [FinishTyping i full] else [])"
      "read_failure rd = None \<longrightarrow>
          fst (handleStreamResponse env (Some rd) (Some i) [])
            = Inr (if full = [] then msg_empty_stream else full)"
    using stream_result [OF assms, of env rd] by (elim exE conjE) simp
  have u: "typing_updates (snd (handleStreamResponse env (Some rd) (Some i) [])) = typing_updates w1"
    unfolding r(2) by simp
  have a: "cumulative '''' (typing_updates (snd (handleStreamResponse env (Some rd) (Some i) [])))"
    unfolding u using r(1) by (simp add: coherent_def)
  have b: "read_failure rd = None \<longrightarrow>
          fst (handleStreamResponse env (Some rd) (Some i) [])
            = Inr (if last ('''' # typing_updates (snd (handleStreamResponse env (Some rd) (Some i) []))) = []
                   then msg_empty_stream
                   else last ('''' # typing_updates (snd (handleStreamResponse env (Some rd) (Some i) []))))"
    unfolding u using r(1,3) by (simp add: coherent_def)
  have c: "jsonParse env payload_hel = Some (JObj [(''content'', JStr ''Hel'')])
          \<and> jsonParse env payload_lo = Some (JObj [(''content'', JStr ''lo'')]) \<longrightarrow>
          handleStreamResponse env
              (Some \<lparr>chunks = [chunk_hel, chunk_lo, chunk_done], read_failure = None\<rparr>) (Some i) []
            = (Inr ''Hello'',
               [RemoveStreamingEffect i, UpdateMessage i '''',
                UpdateMessageWithTyping i ''Hel'', UpdateMessageWithTyping i ''Hello'',
                ReleaseLock, FinishTyping i ''Hello''])"
  proof
    assume p: "jsonParse env payload_hel = Some (JObj [(''content'', JStr ''Hel'')])
          \<and> jsonParse env payload_lo = Some (JObj [(''content'', JStr ''lo'')])"
    have "read_loop env (Some i) [chunk_hel, chunk_lo, chunk_done] []
            ([], [RemoveStreamingEffect i, UpdateMessage i []])
        = (''Hello'', [RemoveStreamingEffect i, UpdateMessage i []]
              @ [UpdateMessageWithTyping i ''Hel'', UpdateMessageWithTyping i ''Hello''])"
      using p by (intro read_hello [OF assms]) simp_all
    then show "handleStreamResponse env
              (Some \<lparr>chunks = [chunk_hel, chunk_lo, chunk_done], read_failure = None\<rparr>) (Some i) []
            = (Inr ''Hello'',
               [RemoveStreamingEffect i, UpdateMessage i [],
                UpdateMessageWithTyping i ''Hel'', UpdateMessageWithTyping i ''Hello'',
                ReleaseLock, FinishTyping i ''Hello''])"
      using assms by (simp add: handleStreamResponse_def Let_def del: read_loop.simps)
  qed
  from a b c show ?thesis by blast
qed

theorem stream_callbacks_cumulative_witness:
  "typing_updates (snd (handleStreamResponse sample_env
        (Some \<lparr>chunks = [chunk_hel, chunk_lo, chunk_done], read_failure = None\<rparr>) (Some ''m1'') []))
     = [''Hel'', ''Hello'']
   \<and> fst (handleStreamResponse sample_env
        (Some \<lparr>chunks = [chunk_hel, chunk_lo, chunk_done], read_failure = None\<rparr>) (Some ''m1'') [])
     = Inr ''Hello''
   \<and> cumulative '''' [''Hel'', ''Hello'']"
proof -
  have p: "jsonParse sample_env payload_hel = Some (JObj [(''content'', JStr ''Hel'')])"
    "jsonParse sample_env payload_lo = Some (JObj [(''content'', JStr ''lo'')])"
    by (simp_all add: sample_env_def sample_json_def payload_hel_def payload_lo_def)
  have i: "''m1'' \<noteq> []" by simp
  show ?thesis
    using stream_callbacks_cumulative [OF i, of sample_env
        "\<lparr>chunks = [chunk_hel, chunk_lo, chunk_done], read_failure = None\<rparr>"] p
    by simp
qed

text \<open>
  C2, at a failing input. The payload \<^verbatim>\<open>[DONE]\<close> ends the loop over the lines of its own
  chunk only: \<^verbatim>\<open>break\<close> leaves the \<^verbatim>\<open>for\<close> loop and the \<^verbatim>\<open>while\<close> loop reads on. With
  \<^verbatim>\<open>[DONE]\<close> at the end of the first chunk and one more event in a second chunk, the
  later payload is reported and appended: the text returned is \<^verbatim>\<open>Hello\<close>, where the
  text assembled before \<^verbatim>\<open>[DONE]\<close> is \<^verbatim>\<open>Hel\<close>.
\<close>

theorem done_does_not_end_the_stream:
  "handleStreamResponse sample_env
      (Some \<lparr>chunks = [chunk_hel_done, chunk_lo], read_failure = None\<rparr>) (Some ''m1'') []
     = (Inr ''Hello'',
        [RemoveStreamingEffect ''m1'', UpdateMessage ''m1'' '''',
         UpdateMessageWithTyping ''m1'' ''Hel'', UpdateMessageWithTyping ''m1'' ''Hello'',
         ReleaseLock, FinishTyping ''m1'' ''Hello''])"
proof -
  have p: "jsonParse sample_env payload_hel = Some (JObj [(''content'', JStr ''Hel'')])"
    "jsonParse sample_env payload_lo = Some (JObj [(''content'', JStr ''lo'')])"
    by (simp_all add: sample_env_def sample_json_def payload_hel_def payload_lo_def)
  have i: "''m1'' \<noteq> []" by simp
  have l: "split_on newline chunk_hel_done = [''data: '' @ payload_hel, [], ''data: [DONE]'', [], []]"
    by (simp add: chunk_hel_done_def payload_hel_def newline_def)
  show ?thesis
    by (simp add: handleStreamResponse_def l lines_of_chunks Let_def blank_Nil not_blank_data
        payloads_not_done consume_hel [OF i p(1)] consume_lo [OF i p(2)])
qed

section \<open>Simulated playback\<close>

text \<open>
  C9, as the code has it. The claim is that the playback splits the text on whitespace.
  The code splits at the space character only (\<^verbatim>\<open>text.split(' ')\<close>): a text of two words
  on two lines is one token and is shown in one update, where a split on whitespace has
  two tokens.
\<close>

theorem playback_not_split_on_whitespace:
  "typing_updates (simulateTypingEffect sample_env ''m1'' (''a'' @ [newline] @ ''b'') [])
     = [''a'' @ [newline] @ ''b'']
   \<and> spec_tokens (''a'' @ [newline] @ ''b'') [] = [''a'', ''b'']"
  by (simp add: simulateTypingEffect_def newline_def)

text \<open>
  C9, amended. Played back in simulated mode, a text is split at every space character
  into tokens (an empty token between two adjacent spaces), and for the tokens
  \<open>t1 ... tn\<close> the update callback is invoked exactly \<open>n\<close> times, the k-th time with the
  first \<open>k\<close> tokens joined by single spaces; the last of these texts is the whole text.
  Each update is followed by one wait of \<^verbatim>\<open>Math.random() * 100 + 50\<close> milliseconds, which
  is in the range from 50 up to 150 for a random value from 0 up to 1, and the playback
  ends with \<^verbatim>\<open>finishTyping\<close> on the whole text. For \<^verbatim>\<open>a b c\<close> the updates are \<^verbatim>\<open>a\<close>,
  \<^verbatim>\<open>a b\<close>, \<^verbatim>\<open>a b c\<close>, in that order.
\<close>

theorem simulated_playback:
  assumes "\<forall>i. 0 \<le> random env i \<and> random env i < 1"
  shows "simulateTypingEffect env m text w
           = w @ playback_steps env m (split_on CHR '' '' text) 0 @ [FinishTyping m text]
     \<and> typing_updates (playback_steps env m (split_on CHR '' '' text) 0)
           = map (\<lambda>n. join '' '' (take (Suc n) (split_on CHR '' '' text)))
               [0..<length (split_on CHR '' '' text)]
     \<and> join '' '' (split_on CHR '' '' text) = text
     \<and> length (sleeps (playback_steps env m (split_on CHR '' '' text) 0))
           = length (typing_updates (playback_steps env m (split_on CHR '' '' text) 0))
     \<and> list_all (\<lambda>d. 50 \<le> d \<and> d < 150) (sleeps (playback_steps env m (split_on CHR '' '' text) 0))"
proof -
  let ?ws = "split_on CHR '' '' text"
  have "simulateTypingEffect env m text w = w @ playback_steps env m ?ws 0 @ [FinishTyping m text]"
    using typing_loop_steps [of env m ?ws "[]" w] by (simp add: simulateTypingEffect_def)
  moreover have "list_all (\<lambda>d. 50 \<le> d \<and> d < 150) (sleeps (playback_steps env m ?ws 0))"
    using assms by (simp add: sleeps_steps list_all_iff)
  ultimately show ?thesis
    by (simp add: typing_updates_steps sleeps_steps join_split_on)
qed

theorem simulated_playback_witness:
  "typing_updates (simulateTypingEffect sample_env ''m1'' ''a b c'' []) = [''a'', ''a b'', ''a b c'']
   \<and> sleeps (simulateTypingEffect sample_env ''m1'' ''a b c'' []) = [100, 100, 100]
   \<and> simulateTypingEffect sample_env ''m1'' ''a b c'' []
       = [UpdateMessageWithTyping ''m1'' ''a'', Sleep 100,
          UpdateMessageWithTyping ''m1'' ''a b'', Sleep 100,
          UpdateMessageWithTyping ''m1'' ''a b c'', Sleep 100,
          FinishTyping ''m1'' ''a b c'']"
proof -
  have r: "\<forall>i. 0 \<le> random sample_env i \<and> random sample_env i < 1"
    by (simp add: sample_env_def)
  have s: "split_on CHR '' '' ''a b c'' = [''a'', ''b'', ''c'']" by simp
  have u: "[0..<3] = [0, 1, 2]" by (simp add: upt_rec)
  have "playback_steps sample_env ''m1'' [''a'', ''b'', ''c''] 0
      = [UpdateMessageWithTyping ''m1'' ''a'', Sleep 100,
          UpdateMessageWithTyping ''m1'' ''a b'', Sleep 100,
          UpdateMessageWithTyping ''m1'' ''a b c'', Sleep 100]"
    by (simp add: playback_steps_def u sample_env_def)
  then show ?thesis
    using simulated_playback [OF r, of "''m1''" "''a b c''" "[]"] s by simp
qed

section \<open>Configuration update\<close>

text \<open>
  C10. A configuration update whose payload carries no \<^verbatim>\<open>apiSettings\<close> object leaves the
  three stored fields as they were. The stored settings change only when the first data
  view's objects carry \<^verbatim>\<open>apiSettings\<close>, and then each field is the payload's, with a
  missing \<^verbatim>\<open>apiUrl\<close> or \<^verbatim>\<open>apiKey\<close> stored as the empty string and a missing
  \<^verbatim>\<open>authType\<close> as \<^verbatim>\<open>Bearer\<close>.
\<close>

theorem update_frame:
  "(payload_apiSettings options = None \<longrightarrow> update s options = s)
   \<and> (update s options \<noteq> s \<longrightarrow>
        (\<exists>dv rest objs a. dataViews options = dv # rest \<and> objects (metadata dv) = Some objs
            \<and> objs ''apiSettings'' = Some a))
   \<and> (\<forall>a. payload_apiSettings options = Some a \<longrightarrow>
        apiUrl (update s options) = (case a ''apiUrl'' of None \<Rightarrow> '''' | Some v \<Rightarrow> v)
        \<and> apiKey (update s options) = (case a ''apiKey'' of None \<Rightarrow> '''' | Some v \<Rightarrow> v)
        \<and> authType (update s options)
            = (case a ''authType'' of None \<Rightarrow> ''Bearer''
               | Some v \<Rightarrow> if v = [] then ''Bearer'' else v))"
  by (auto simp: update_def payload_apiSettings_def split: list.splits option.splits)

theorem update_frame_witness:
  "update initial_settings \<lparr>dataViews = []\<rparr> = initial_settings
   \<and> update initial_settings
        \<lparr>dataViews = [\<lparr>metadata = \<lparr>objects = Some [''general'' \<mapsto> Map.empty]\<rparr>\<rparr>]\<rparr>
       = initial_settings
   \<and> update initial_settings
        \<lparr>dataViews = [\<lparr>metadata = \<lparr>objects =
            Some [''apiSettings'' \<mapsto> [''apiUrl'' \<mapsto> ''https://api.example/chat'']]\<rparr>\<rparr>]\<rparr>
       = \<lparr>apiUrl = ''https://api.example/chat'', apiKey = '''', authType = ''Bearer''\<rparr>"
  using update_frame [of "\<lparr>dataViews = []\<rparr>" initial_settings]
    update_frame [of "\<lparr>dataViews = [\<lparr>metadata = \<lparr>objects =
            Some [''general'' \<mapsto> Map.empty]\<rparr>\<rparr>]\<rparr>" initial_settings]
    update_frame [of "\<lparr>dataViews = [\<lparr>metadata = \<lparr>objects =
            Some [''apiSettings'' \<mapsto> [''apiUrl'' \<mapsto> ''https://api.example/chat'']]\<rparr>\<rparr>]\<rparr>"
      initial_settings]
  by (simp add: payload_apiSettings_def initial_settings_def)

end
